theory Spec2Isabelle
  imports Main "HOL-Library.Word" "HOL-Library.AList" "HOL-Library.Multiset"
begin

section \<open>Kubernetes object model used by the controllers\<close>

text \<open>
  Go maps with string keys (labels, annotations, selectors) are association lists read
  with \<^const>\<open>map_of\<close> and written with \<^const>\<open>AList.update\<close>; a nil map is \<open>None\<close>
  where the code tests for nil (the Service's pod selector) and the empty list elsewhere.
\<close>

type_synonym string_map = "(string \<times> string) list"

text \<open>\<^verbatim>\<open>metav1.ObjectMeta\<close>, restricted to the fields the controllers read or write.\<close>

record object_meta =
  meta_name :: string
  meta_namespace :: string
  meta_labels :: string_map
  meta_annotations :: string_map
  meta_finalizers :: "string list"
  meta_deletionTimestamp :: "nat option"

definition ObjectMeta :: "string \<Rightarrow> string \<Rightarrow> object_meta" where
  "ObjectMeta n ns = \<lparr>meta_name = n, meta_namespace = ns, meta_labels = [],
     meta_annotations = [], meta_finalizers = [], meta_deletionTimestamp = None\<rparr>"

text \<open>\<^verbatim>\<open>intstr.IntOrString\<close>: a 32-bit integer or a string (a named port).\<close>

datatype int_or_string = IntVal "32 word" | StrVal string

text \<open>\<^verbatim>\<open>networkingv1.NetworkPolicyPort\<close>: both fields are pointers and may be nil.\<close>

record network_policy_port =
  npp_protocol :: "string option"
  npp_port :: "int_or_string option"

text \<open>\<^verbatim>\<open>corev1.ServicePort\<close>.\<close>

record service_port =
  sp_name :: string
  sp_protocol :: string
  sp_port :: "32 word"
  sp_targetPort :: int_or_string

record service =
  svc_meta :: object_meta
  svc_selector :: "string_map option"
  svc_ports :: "service_port list"

text \<open>\<^verbatim>\<open>metav1.LabelSelector\<close> as it is written into a policy or read from an annotation.\<close>

record label_selector =
  ls_matchLabels :: string_map
  ls_matchExpressions :: "(string \<times> string \<times> string list) list"

definition MatchLabels :: "string_map \<Rightarrow> label_selector" where
  "MatchLabels m = \<lparr>ls_matchLabels = m, ls_matchExpressions = []\<rparr>"

record network_policy_peer =
  peer_podSelector :: "label_selector option"
  peer_namespaceSelector :: "label_selector option"
  peer_ipBlock :: "string option"

text \<open>An ingress rule (\<open>From\<close>) and an egress rule (\<open>To\<close>) have the same shape.\<close>

record network_policy_rule =
  rule_peers :: "network_policy_peer list"
  rule_ports :: "network_policy_port list"

datatype policy_type = PolicyTypeIngress | PolicyTypeEgress

record network_policy_spec =
  spec_podSelector :: label_selector
  spec_ingress :: "network_policy_rule list"
  spec_egress :: "network_policy_rule list"
  spec_policyTypes :: "policy_type list"

record network_policy =
  np_meta :: object_meta
  np_spec :: network_policy_spec

text \<open>Errors are values. \<open>Wrapped\<close> is \<^verbatim>\<open>fmt.Errorf("...: %w", err)\<close>; \<open>NilDereference\<close> is the
  run-time panic of dereferencing a nil pointer.\<close>

datatype error =
    NotFound string
  | StoreError string
  | UnmarshalError string
  | SelectorError string
  | NilDereference string
  | Wrapped string error

text \<open>\<^verbatim>\<open>apierrors.IsNotFound\<close> looks through wrapping.\<close>

fun IsNotFound :: "error \<Rightarrow> bool" where
  "IsNotFound (NotFound _) = True"
| "IsNotFound (Wrapped _ e) = IsNotFound e"
| "IsNotFound _ = False"

text \<open>\<^verbatim>\<open>reconcile.Result\<close>; the duration is in nanoseconds.\<close>

record result =
  res_requeue :: bool
  res_requeueAfter :: nat

definition Result_empty :: result where
  "Result_empty = \<lparr>res_requeue = False, res_requeueAfter = 0\<rparr>"

section \<open>String helpers of the Go standard library\<close>

text \<open>\<^verbatim>\<open>strconv.Itoa\<close>: decimal rendering, with a minus sign for negative numbers.\<close>

function Itoa_nat :: "nat \<Rightarrow> string" where
  "Itoa_nat n = (if n < 10 then [''0123456789'' ! n]
                 else Itoa_nat (n div 10) @ [''0123456789'' ! (n mod 10)])"
  by pat_completeness auto
termination
  by (relation "measure id") auto

definition Itoa :: "int \<Rightarrow> string" where
  "Itoa i = (if i < 0 then CHR ''-'' # Itoa_nat (nat (- i)) else Itoa_nat (nat i))"

text \<open>\<^verbatim>\<open>strings.ToLower\<close> on the ASCII letters. (Go also lowers letters outside ASCII; the
  protocols the API server admits, TCP, UDP and SCTP, are ASCII.)\<close>

definition toLower_char :: "char \<Rightarrow> char" where
  "toLower_char c =
     (case map_of (zip ''ABCDEFGHIJKLMNOPQRSTUVWXYZ'' ''abcdefghijklmnopqrstuvwxyz'') c of
        None \<Rightarrow> c | Some l \<Rightarrow> l)"

definition ToLower :: "string \<Rightarrow> string" where
  "ToLower s = map toLower_char s"

text \<open>\<^verbatim>\<open>(*IntOrString).String\<close>.\<close>

fun IntOrString_String :: "int_or_string \<Rightarrow> string" where
  "IntOrString_String (StrVal s) = s"
| "IntOrString_String (IntVal i) = Itoa (sint i)"

section \<open>Well-known names\<close>

definition finalizerName :: string where
  "finalizerName = ''resources.gardener.cloud/networkpolicy-controller''"

text \<open>Modelled from the spec: the constants of package \<^verbatim>\<open>resourcesv1alpha1\<close> and
  \<^verbatim>\<open>v1beta1constants\<close>, which are declared outside the files at hand. The annotation keys
  are the wire contract of the spec's section 6; the two back-reference label keys and the
  description annotation key are fixed, distinct strings.\<close>

definition NetworkingNamespaceSelectors :: string where
  "NetworkingNamespaceSelectors = ''networking.resources.gardener.cloud/namespace-selectors''"

definition NetworkingPodLabelSelectorNamespaceAlias :: string where
  "NetworkingPodLabelSelectorNamespaceAlias =
     ''networking.resources.gardener.cloud/pod-label-selector-namespace-alias''"

definition NetworkingFromWorldToPorts :: string where
  "NetworkingFromWorldToPorts = ''networking.resources.gardener.cloud/from-world-to-ports''"

definition NetworkingFromPolicyPodLabelSelector :: string where
  "NetworkingFromPolicyPodLabelSelector =
     ''networking.resources.gardener.cloud/from-policy-pod-label-selector''"

definition NetworkingFromPolicyAllowedPorts :: string where
  "NetworkingFromPolicyAllowedPorts =
     ''networking.resources.gardener.cloud/from-policy-allowed-ports''"

definition NetworkingServiceName :: string where
  "NetworkingServiceName = ''networking.resources.gardener.cloud/service-name''"

definition NetworkingServiceNamespace :: string where
  "NetworkingServiceNamespace = ''networking.resources.gardener.cloud/service-namespace''"

definition GardenerDescription :: string where
  "GardenerDescription = ''gardener.cloud/description''"

definition LabelNetworkPolicyAllowed :: string where
  "LabelNetworkPolicyAllowed = ''allowed''"

definition LabelMetadataName :: string where
  "LabelMetadataName = ''kubernetes.io/metadata.name''"

text \<open>Reading a Go map: \<^verbatim>\<open>m[k]\<close> is the empty string when the key is absent.\<close>

definition lookup_or_empty :: "string_map \<Rightarrow> string \<Rightarrow> string" where
  "lookup_or_empty m k = (case map_of m k of None \<Rightarrow> [] | Some v \<Rightarrow> v)"

definition ContainsFinalizer :: "object_meta \<Rightarrow> string \<Rightarrow> bool" where
  "ContainsFinalizer m f = (f \<in> set (meta_finalizers m))"

section \<open>Names, keys and selectors of derived policies\<close>

definition policyIDFor :: "string \<Rightarrow> network_policy_port \<Rightarrow> error + string" where
  "policyIDFor serviceName p =
     (case npp_protocol p of
        None \<Rightarrow> Inl (NilDereference ''port.Protocol'')
      | Some proto \<Rightarrow>
          (case npp_port p of
             None \<Rightarrow> Inl (NilDereference ''port.Port'')
           | Some tp \<Rightarrow>
               Inr (serviceName @ ''-'' @ ToLower proto @ ''-'' @ IntOrString_String tp)))"

definition matchLabelsForServiceAndNamespace :: "string \<Rightarrow> service \<Rightarrow> string \<Rightarrow> string_map" where
  "matchLabelsForServiceAndNamespace podLabelSelector svc namespaceName =
     (let infix_part =
        (if meta_namespace (svc_meta svc) \<noteq> namespaceName
         then (case map_of (meta_annotations (svc_meta svc)) NetworkingPodLabelSelectorNamespaceAlias of
                 Some namespaceAlias \<Rightarrow> namespaceAlias
               | None \<Rightarrow> meta_namespace (svc_meta svc)) @ ''-''
         else [])
      in [(''networking.resources.gardener.cloud/to-'' @ infix_part @ podLabelSelector,
           LabelNetworkPolicyAllowed)])"

definition ingressPolicyObjectMetaFor :: "string \<Rightarrow> string \<Rightarrow> string \<Rightarrow> object_meta" where
  "ingressPolicyObjectMetaFor policyID serviceNamespace namespaceName =
     ObjectMeta
       (if serviceNamespace \<noteq> namespaceName
        then ''ingress-to-'' @ policyID @ ''-from-'' @ namespaceName
        else ''ingress-to-'' @ policyID)
       serviceNamespace"

definition egressPolicyObjectMetaFor :: "string \<Rightarrow> string \<Rightarrow> string \<Rightarrow> object_meta" where
  "egressPolicyObjectMetaFor policyID serviceNamespace namespaceName =
     ObjectMeta
       (if serviceNamespace \<noteq> namespaceName
        then ''egress-to-'' @ serviceNamespace @ ''-'' @ policyID
        else ''egress-to-'' @ policyID)
       namespaceName"

definition ingressNamespaceSelectorFor :: "string \<Rightarrow> string \<Rightarrow> label_selector option" where
  "ingressNamespaceSelectorFor serviceNamespace namespaceName =
     (if serviceNamespace = namespaceName then None
      else Some (MatchLabels [(LabelMetadataName, namespaceName)]))"

definition egressNamespaceSelectorFor :: "string \<Rightarrow> string \<Rightarrow> label_selector option" where
  "egressNamespaceSelectorFor serviceNamespace namespaceName =
     (if serviceNamespace = namespaceName then None
      else Some (MatchLabels [(LabelMetadataName, serviceNamespace)]))"

definition key :: "object_meta \<Rightarrow> string" where
  "key m = meta_namespace m @ ''/'' @ meta_name m"

section \<open>Tasks handed to the parallel flow\<close>

text \<open>
  A \<^verbatim>\<open>flow.TaskFn\<close> is a closure; the model keeps what each closure captured. The Service
  every closure captures is passed when the task is run.
\<close>

datatype task =
    ReconcileIngressPolicy network_policy_port object_meta string string_map
  | ReconcileEgressPolicy network_policy_port object_meta string string_map
  | ReconcileIngressFromWorldPolicy object_meta
  | DeleteObject object_meta

fun is_delete :: "task \<Rightarrow> bool" where
  "is_delete (DeleteObject _) = True"
| "is_delete _ = False"

fun task_target :: "task \<Rightarrow> object_meta" where
  "task_target (ReconcileIngressPolicy _ m _ _) = m"
| "task_target (ReconcileEgressPolicy _ m _ _) = m"
| "task_target (ReconcileIngressFromWorldPolicy m) = m"
| "task_target (DeleteObject m) = m"

text \<open>
  Functions of libraries outside the repository are parameters of the model:
  \<^verbatim>\<open>json.Unmarshal\<close> into a slice of label selectors and into a slice of policy ports,
  \<^verbatim>\<open>metav1.LabelSelectorAsSelector\<close> (a compiled \<^verbatim>\<open>labels.Selector\<close> is its \<open>Matches\<close>
  predicate on a label set), and the \<^verbatim>\<open>%v\<close> rendering of a port slice.
\<close>

type_synonym selector = "string_map \<Rightarrow> bool"

record library =
  unmarshalSelectors :: "string \<Rightarrow> error + label_selector list"
  unmarshalPorts :: "string \<Rightarrow> error + network_policy_port list"
  LabelSelectorAsSelector :: "label_selector \<Rightarrow> error + selector"
  formatPorts :: "network_policy_port list \<Rightarrow> string"

section \<open>Deriving the desired policies\<close>

type_synonym accumulator = "task list \<times> string list"

text \<open>The loop over the relevant namespaces; its body appends the ingress and the egress
  entry. (\<^verbatim>\<open>UnsortedList\<close> promises no order; the model walks the names in the order they
  were inserted.)\<close>

fun addTasksForNamespaces ::
  "service \<Rightarrow> network_policy_port \<Rightarrow> string \<Rightarrow> string \<Rightarrow> string list \<Rightarrow> accumulator \<Rightarrow> accumulator"
where
  "addTasksForNamespaces svc p policyID podLabelSelector [] acc = acc"
| "addTasksForNamespaces svc p policyID podLabelSelector (namespaceName # rest) acc =
     (let matchLabels = matchLabelsForServiceAndNamespace podLabelSelector svc namespaceName;
          ingressMeta = ingressPolicyObjectMetaFor policyID (meta_namespace (svc_meta svc)) namespaceName;
          egressMeta = egressPolicyObjectMetaFor policyID (meta_namespace (svc_meta svc)) namespaceName
      in addTasksForNamespaces svc p policyID podLabelSelector rest
           (fst acc @ [ReconcileIngressPolicy p ingressMeta namespaceName matchLabels,
                       ReconcileEgressPolicy p egressMeta namespaceName matchLabels],
            snd acc @ [key ingressMeta, key egressMeta]))"

definition addTasksForRelevantNamespacesAndPort ::
  "service \<Rightarrow> string list \<Rightarrow> network_policy_port \<Rightarrow> string \<Rightarrow> accumulator \<Rightarrow> error + accumulator"
where
  "addTasksForRelevantNamespacesAndPort svc namespaceNames p customPodLabelSelector acc =
     (case policyIDFor (meta_name (svc_meta svc)) p of
        Inl e \<Rightarrow> Inl e
      | Inr policyID \<Rightarrow>
          Inr (if customPodLabelSelector \<noteq> []
               then addTasksForNamespaces svc p (policyID @ ''-via-'' @ customPodLabelSelector)
                      customPodLabelSelector namespaceNames acc
               else addTasksForNamespaces svc p policyID policyID namespaceNames acc))"

fun addTasksForPorts ::
  "service \<Rightarrow> string list \<Rightarrow> string \<Rightarrow> network_policy_port list \<Rightarrow> accumulator \<Rightarrow> error + accumulator"
where
  "addTasksForPorts svc namespaceNames custom [] acc = Inr acc"
| "addTasksForPorts svc namespaceNames custom (p # ps) acc =
     (case addTasksForRelevantNamespacesAndPort svc namespaceNames p custom acc of
        Inl e \<Rightarrow> Inl e
      | Inr acc' \<Rightarrow> addTasksForPorts svc namespaceNames custom ps acc')"

definition servicePortAsPolicyPort :: "service_port \<Rightarrow> network_policy_port" where
  "servicePortAsPolicyPort p = \<lparr>npp_protocol = Some (sp_protocol p), npp_port = Some (sp_targetPort p)\<rparr>"

definition fromWorldObjectMeta :: "service \<Rightarrow> object_meta" where
  "fromWorldObjectMeta svc =
     ObjectMeta (''ingress-to-'' @ meta_name (svc_meta svc) @ ''-from-world'') (meta_namespace (svc_meta svc))"

definition reconcileDesiredPolicies ::
  "library \<Rightarrow> service \<Rightarrow> string list \<Rightarrow> error + accumulator"
where
  "reconcileDesiredPolicies lib svc namespaceNames =
     (case addTasksForPorts svc namespaceNames [] (map servicePortAsPolicyPort (svc_ports svc)) ([], []) of
        Inl e \<Rightarrow> Inl e
      | Inr acc1 \<Rightarrow>
          (let customPodLabelSelector =
                 lookup_or_empty (meta_annotations (svc_meta svc)) NetworkingFromPolicyPodLabelSelector;
               allowedPorts =
                 lookup_or_empty (meta_annotations (svc_meta svc)) NetworkingFromPolicyAllowedPorts
           in case (if customPodLabelSelector \<noteq> [] \<and> allowedPorts \<noteq> []
                    then (case unmarshalPorts lib allowedPorts of
                            Inl e \<Rightarrow> Inl (Wrapped (''failed unmarshaling '' @ allowedPorts) e)
                          | Inr ports \<Rightarrow> addTasksForPorts svc namespaceNames customPodLabelSelector ports acc1)
                    else Inr acc1) of
                Inl e \<Rightarrow> Inl e
              | Inr acc2 \<Rightarrow>
                  (case map_of (meta_annotations (svc_meta svc)) NetworkingFromWorldToPorts of
                     Some _ \<Rightarrow>
                       Inr (fst acc2 @ [ReconcileIngressFromWorldPolicy (fromWorldObjectMeta svc)],
                            snd acc2 @ [key (fromWorldObjectMeta svc)])
                   | None \<Rightarrow> Inr acc2)))"

section \<open>Scheduling the deletion of stale policies\<close>

text \<open>The set of desired keys is a Go map filled in a loop.\<close>

definition desiredKeySet :: "string list \<Rightarrow> (string \<rightharpoonup> unit)" where
  "desiredKeySet desiredObjectMetaKeys = fold (\<lambda>k m. m(k \<mapsto> ())) desiredObjectMetaKeys Map.empty"

fun deleteStaleLoop :: "(string \<rightharpoonup> unit) \<Rightarrow> object_meta list \<Rightarrow> task list \<Rightarrow> task list" where
  "deleteStaleLoop m [] taskFns = taskFns"
| "deleteStaleLoop m (networkPolicy # items) taskFns =
     deleteStaleLoop m items
       (if m (key networkPolicy) = None then taskFns @ [DeleteObject networkPolicy] else taskFns)"

definition deleteStalePolicies :: "object_meta list \<Rightarrow> string list \<Rightarrow> task list" where
  "deleteStalePolicies networkPolicyList desiredObjectMetaKeys =
     deleteStaleLoop (desiredKeySet desiredObjectMetaKeys) networkPolicyList []"

section \<open>The object store behind the target client\<close>

text \<open>
  The store holds the Services, the Namespaces and the NetworkPolicies of the target
  cluster. A call of the client may also fail for reasons outside the store (transport,
  authorisation, time-out): \<open>cl_faults\<close> gives the error a call meets, if any.
\<close>

datatype api_call =
    GetService string string
  | PatchService string string
  | GetNamespace string
  | ListNamespaces
  | ListNetworkPolicies
  | GetNetworkPolicy string string
  | CreateNetworkPolicy string string
  | PatchNetworkPolicy string string
  | DeleteNetworkPolicy string string

record cluster =
  cl_services :: "service list"
  cl_namespaces :: "object_meta list"
  cl_policies :: "network_policy list"
  cl_faults :: "api_call \<Rightarrow> error option"

definition same_object :: "string \<Rightarrow> string \<Rightarrow> object_meta \<Rightarrow> bool" where
  "same_object ns n m = (meta_namespace m = ns \<and> meta_name m = n)"

definition client_Get_service :: "cluster \<Rightarrow> string \<Rightarrow> string \<Rightarrow> error + service" where
  "client_Get_service c ns n =
     (case cl_faults c (GetService ns n) of
        Some e \<Rightarrow> Inl e
      | None \<Rightarrow>
          (case find (\<lambda>s. same_object ns n (svc_meta s)) (cl_services c) of
             None \<Rightarrow> Inl (NotFound (ns @ ''/'' @ n))
           | Some s \<Rightarrow> Inr s))"

definition client_Get_namespace :: "cluster \<Rightarrow> string \<Rightarrow> error + object_meta" where
  "client_Get_namespace c n =
     (case cl_faults c (GetNamespace n) of
        Some e \<Rightarrow> Inl e
      | None \<Rightarrow>
          (case find (\<lambda>m. meta_name m = n) (cl_namespaces c) of
             None \<Rightarrow> Inl (NotFound n)
           | Some m \<Rightarrow> Inr m))"

definition client_List_namespaces :: "cluster \<Rightarrow> selector \<Rightarrow> error + object_meta list" where
  "client_List_namespaces c sel =
     (case cl_faults c ListNamespaces of
        Some e \<Rightarrow> Inl e
      | None \<Rightarrow> Inr (filter (\<lambda>m. sel (meta_labels m)) (cl_namespaces c)))"

text \<open>The list of policies is a \<^verbatim>\<open>PartialObjectMetadataList\<close> filtered by the two
  back-reference labels: metadata only, from every namespace.\<close>

definition carries_labels :: "string \<Rightarrow> string \<Rightarrow> object_meta \<Rightarrow> bool" where
  "carries_labels svcName svcNamespace m =
     (map_of (meta_labels m) NetworkingServiceName = Some svcName \<and>
      map_of (meta_labels m) NetworkingServiceNamespace = Some svcNamespace)"

definition client_List_policies :: "cluster \<Rightarrow> string \<Rightarrow> string \<Rightarrow> error + object_meta list" where
  "client_List_policies c svcName svcNamespace =
     (case cl_faults c ListNetworkPolicies of
        Some e \<Rightarrow> Inl e
      | None \<Rightarrow> Inr (filter (carries_labels svcName svcNamespace) (map np_meta (cl_policies c))))"

text \<open>Modelled from the spec: \<^verbatim>\<open>controllerutils.AddFinalizers\<close> and
  \<^verbatim>\<open>controllerutils.RemoveFinalizers\<close>, which lie outside the files at hand: the finalizer is
  added to (removed from) the Service's metadata by a patch; the in-memory Service is
  updated with it.\<close>

definition patch_finalizers ::
  "cluster \<Rightarrow> service \<Rightarrow> string list \<Rightarrow> error + (service \<times> cluster)"
where
  "patch_finalizers c svc fs =
     (let ns = meta_namespace (svc_meta svc); n = meta_name (svc_meta svc) in
      case cl_faults c (PatchService ns n) of
        Some e \<Rightarrow> Inl e
      | None \<Rightarrow>
          (case find (\<lambda>s. same_object ns n (svc_meta s)) (cl_services c) of
             None \<Rightarrow> Inl (NotFound (ns @ ''/'' @ n))
           | Some _ \<Rightarrow>
               Inr (svc\<lparr>svc_meta := (svc_meta svc)\<lparr>meta_finalizers := fs\<rparr>\<rparr>,
                    c\<lparr>cl_services :=
                        map (\<lambda>s. if same_object ns n (svc_meta s)
                                  then s\<lparr>svc_meta := (svc_meta s)\<lparr>meta_finalizers := fs\<rparr>\<rparr>
                                  else s)
                            (cl_services c)\<rparr>)))"

definition AddFinalizers :: "cluster \<Rightarrow> service \<Rightarrow> string \<Rightarrow> error + (service \<times> cluster)" where
  "AddFinalizers c svc f =
     patch_finalizers c svc
       (if f \<in> set (meta_finalizers (svc_meta svc)) then meta_finalizers (svc_meta svc)
        else meta_finalizers (svc_meta svc) @ [f])"

definition RemoveFinalizers :: "cluster \<Rightarrow> service \<Rightarrow> string \<Rightarrow> error + (service \<times> cluster)" where
  "RemoveFinalizers c svc f =
     patch_finalizers c svc (filter (\<lambda>g. g \<noteq> f) (meta_finalizers (svc_meta svc)))"

text \<open>Modelled from the spec: \<^verbatim>\<open>controllerutils.GetAndCreateOrMergePatch\<close>, which lies
  outside the files at hand. Spec, section 4.4: fetch by namespace and name; if absent,
  create the mutated object; if present, patch it so that the fields the mutate function
  sets are overwritten and every other field is left as it is.\<close>

definition GetAndCreateOrMergePatch ::
  "cluster \<Rightarrow> object_meta \<Rightarrow> (network_policy \<Rightarrow> error + network_policy) \<Rightarrow> error option \<times> cluster"
where
  "GetAndCreateOrMergePatch c m mutate =
     (let ns = meta_namespace m; n = meta_name m in
      case cl_faults c (GetNetworkPolicy ns n) of
        Some e \<Rightarrow> (Some e, c)
      | None \<Rightarrow>
          (case find (\<lambda>p. same_object ns n (np_meta p)) (cl_policies c) of
             None \<Rightarrow>
               (case mutate \<lparr>np_meta = m,
                             np_spec = \<lparr>spec_podSelector = MatchLabels [], spec_ingress = [],
                                        spec_egress = [], spec_policyTypes = []\<rparr>\<rparr> of
                  Inl e \<Rightarrow> (Some e, c)
                | Inr p' \<Rightarrow>
                    (case cl_faults c (CreateNetworkPolicy ns n) of
                       Some e \<Rightarrow> (Some e, c)
                     | None \<Rightarrow> (None, c\<lparr>cl_policies := cl_policies c @ [p']\<rparr>)))
           | Some p \<Rightarrow>
               (case mutate p of
                  Inl e \<Rightarrow> (Some e, c)
                | Inr p' \<Rightarrow>
                    (case cl_faults c (PatchNetworkPolicy ns n) of
                       Some e \<Rightarrow> (Some e, c)
                     | None \<Rightarrow>
                         (None, c\<lparr>cl_policies :=
                                    map (\<lambda>q. if same_object ns n (np_meta q) then p' else q)
                                        (cl_policies c)\<rparr>)))))"

text \<open>Modelled from the spec: \<^verbatim>\<open>kubernetesutils.DeleteObject\<close>, which lies outside the files
  at hand. Spec, sections 2 and 4.4: delete if it exists; "already gone" is success.\<close>

definition client_DeleteObject :: "cluster \<Rightarrow> object_meta \<Rightarrow> error option \<times> cluster" where
  "client_DeleteObject c m =
     (let ns = meta_namespace m; n = meta_name m in
      case cl_faults c (DeleteNetworkPolicy ns n) of
        Some e \<Rightarrow> (if IsNotFound e then (None, c) else (Some e, c))
      | None \<Rightarrow> (None, c\<lparr>cl_policies := filter (\<lambda>p. \<not> same_object ns n (np_meta p)) (cl_policies c)\<rparr>))"

section \<open>The upsert tasks\<close>

definition SetMetaDataLabel :: "object_meta \<Rightarrow> string \<Rightarrow> string \<Rightarrow> object_meta" where
  "SetMetaDataLabel m k v = m\<lparr>meta_labels := AList.update k v (meta_labels m)\<rparr>"

definition SetMetaDataAnnotation :: "object_meta \<Rightarrow> string \<Rightarrow> string \<Rightarrow> object_meta" where
  "SetMetaDataAnnotation m k v = m\<lparr>meta_annotations := AList.update k v (meta_annotations m)\<rparr>"

definition setBackReferences :: "service \<Rightarrow> object_meta \<Rightarrow> object_meta" where
  "setBackReferences svc m =
     SetMetaDataLabel
       (SetMetaDataLabel m NetworkingServiceName (meta_name (svc_meta svc)))
       NetworkingServiceNamespace (meta_namespace (svc_meta svc))"

text \<open>What the description's format string reads from the port: the dereferenced protocol
  and the port's string, in this order; either pointer may be nil.\<close>

definition portStrings :: "network_policy_port \<Rightarrow> error + (string \<times> string)" where
  "portStrings p =
     (case npp_protocol p of
        None \<Rightarrow> Inl (NilDereference ''port.Protocol'')
      | Some proto \<Rightarrow>
          (case npp_port p of
             None \<Rightarrow> Inl (NilDereference ''port.Port'')
           | Some tp \<Rightarrow> Inr (proto, IntOrString_String tp)))"

text \<open>\<^verbatim>\<open>%s\<close> of a string map and of the Service's object key.\<close>

fun formatEntries :: "string_map \<Rightarrow> string" where
  "formatEntries [] = []"
| "formatEntries [(k, v)] = k @ '':'' @ v"
| "formatEntries ((k, v) # rest) = k @ '':'' @ v @ '' '' @ formatEntries rest"

definition formatMap :: "string_map \<Rightarrow> string" where
  "formatMap m = ''map['' @ formatEntries m @ '']''"

definition ObjectKeyFromObject :: "service \<Rightarrow> string" where
  "ObjectKeyFromObject svc = meta_namespace (svc_meta svc) @ ''/'' @ meta_name (svc_meta svc)"

definition selectorOf :: "service \<Rightarrow> string_map" where
  "selectorOf svc = (case svc_selector svc of None \<Rightarrow> [] | Some m \<Rightarrow> m)"

definition ingressPolicyMutate ::
  "service \<Rightarrow> network_policy_port \<Rightarrow> string \<Rightarrow> string_map \<Rightarrow> network_policy \<Rightarrow> error + network_policy"
where
  "ingressPolicyMutate svc p namespaceName matchLabels networkPolicy =
     (case portStrings p of
        Inl e \<Rightarrow> Inl e
      | Inr (proto, portString) \<Rightarrow>
          Inr \<lparr>np_meta =
                 SetMetaDataAnnotation (setBackReferences svc (np_meta networkPolicy)) GardenerDescription
                   (''Allows ingress '' @ proto @ '' traffic to port '' @ portString @
                    '' for pods selected by the '' @ ObjectKeyFromObject svc @
                    '' service selector from pods running in namespace '' @ namespaceName @
                    '' labeled with '' @ formatMap matchLabels @ ''.''),
               np_spec =
                 \<lparr>spec_podSelector = MatchLabels (selectorOf svc),
                  spec_ingress =
                    [\<lparr>rule_peers =
                        [\<lparr>peer_podSelector = Some (MatchLabels matchLabels),
                          peer_namespaceSelector =
                            ingressNamespaceSelectorFor (meta_namespace (svc_meta svc)) namespaceName,
                          peer_ipBlock = None\<rparr>],
                      rule_ports = [p]\<rparr>],
                  spec_egress = [],
                  spec_policyTypes = [PolicyTypeIngress]\<rparr>\<rparr>)"

definition egressPolicyMutate ::
  "service \<Rightarrow> network_policy_port \<Rightarrow> string \<Rightarrow> string_map \<Rightarrow> network_policy \<Rightarrow> error + network_policy"
where
  "egressPolicyMutate svc p namespaceName matchLabels networkPolicy =
     (case portStrings p of
        Inl e \<Rightarrow> Inl e
      | Inr (proto, portString) \<Rightarrow>
          Inr \<lparr>np_meta =
                 SetMetaDataAnnotation (setBackReferences svc (np_meta networkPolicy)) GardenerDescription
                   (''Allows egress '' @ proto @ '' traffic to port '' @ portString @
                    '' from pods running in namespace '' @ namespaceName @
                    '' labeled with '' @ formatMap matchLabels @
                    '' to pods selected by the '' @ ObjectKeyFromObject svc @ '' service selector.''),
               np_spec =
                 \<lparr>spec_podSelector = MatchLabels matchLabels,
                  spec_ingress = [],
                  spec_egress =
                    [\<lparr>rule_peers =
                        [\<lparr>peer_podSelector = Some (MatchLabels (selectorOf svc)),
                          peer_namespaceSelector =
                            egressNamespaceSelectorFor (meta_namespace (svc_meta svc)) namespaceName,
                          peer_ipBlock = None\<rparr>],
                      rule_ports = [p]\<rparr>],
                  spec_policyTypes = [PolicyTypeEgress]\<rparr>\<rparr>)"

definition ingressFromWorldPolicyMutate ::
  "library \<Rightarrow> service \<Rightarrow> network_policy_port list \<Rightarrow> network_policy \<Rightarrow> error + network_policy"
where
  "ingressFromWorldPolicyMutate lib svc ports networkPolicy =
     Inr \<lparr>np_meta =
            SetMetaDataAnnotation (setBackReferences svc (np_meta networkPolicy)) GardenerDescription
              (''Allows ingress traffic from everywhere to ports '' @ formatPorts lib ports @
               '' for pods selected by the '' @ ObjectKeyFromObject svc @ '' service selector.''),
          np_spec =
            \<lparr>spec_podSelector = MatchLabels (selectorOf svc),
             spec_ingress =
               [\<lparr>rule_peers =
                   [\<lparr>peer_podSelector = Some (MatchLabels []),
                     peer_namespaceSelector = Some (MatchLabels []),
                     peer_ipBlock = None\<rparr>,
                    \<lparr>peer_podSelector = None, peer_namespaceSelector = None,
                     peer_ipBlock = Some ''0.0.0.0/0''\<rparr>],
                 rule_ports = ports\<rparr>],
             spec_egress = [],
             spec_policyTypes = [PolicyTypeIngress]\<rparr>\<rparr>"

definition reconcileIngressPolicy ::
  "cluster \<Rightarrow> service \<Rightarrow> network_policy_port \<Rightarrow> object_meta \<Rightarrow> string \<Rightarrow> string_map \<Rightarrow> error option \<times> cluster"
where
  "reconcileIngressPolicy c svc p networkPolicyObjectMeta namespaceName matchLabels =
     GetAndCreateOrMergePatch c networkPolicyObjectMeta (ingressPolicyMutate svc p namespaceName matchLabels)"

definition reconcileEgressPolicy ::
  "cluster \<Rightarrow> service \<Rightarrow> network_policy_port \<Rightarrow> object_meta \<Rightarrow> string \<Rightarrow> string_map \<Rightarrow> error option \<times> cluster"
where
  "reconcileEgressPolicy c svc p networkPolicyObjectMeta namespaceName matchLabels =
     GetAndCreateOrMergePatch c networkPolicyObjectMeta (egressPolicyMutate svc p namespaceName matchLabels)"

text \<open>The from-world annotation is parsed here, inside the task, before the store is touched.\<close>

definition reconcileIngressFromWorldPolicy ::
  "library \<Rightarrow> cluster \<Rightarrow> service \<Rightarrow> object_meta \<Rightarrow> error option \<times> cluster"
where
  "reconcileIngressFromWorldPolicy lib c svc networkPolicyObjectMeta =
     (let v = lookup_or_empty (meta_annotations (svc_meta svc)) NetworkingFromWorldToPorts in
      case unmarshalPorts lib v of
        Inl e \<Rightarrow> (Some (Wrapped (''failed unmarshaling '' @ v) e), c)
      | Inr ports \<Rightarrow>
          GetAndCreateOrMergePatch c networkPolicyObjectMeta (ingressFromWorldPolicyMutate lib svc ports))"

fun run_task :: "library \<Rightarrow> service \<Rightarrow> task \<Rightarrow> cluster \<Rightarrow> error option \<times> cluster" where
  "run_task lib svc (ReconcileIngressPolicy p m namespaceName matchLabels) c =
     reconcileIngressPolicy c svc p m namespaceName matchLabels"
| "run_task lib svc (ReconcileEgressPolicy p m namespaceName matchLabels) c =
     reconcileEgressPolicy c svc p m namespaceName matchLabels"
| "run_task lib svc (ReconcileIngressFromWorldPolicy m) c =
     reconcileIngressFromWorldPolicy lib c svc m"
| "run_task lib svc (DeleteObject m) c = client_DeleteObject c m"

section \<open>The parallel flow\<close>

text \<open>Modelled from the spec: \<^verbatim>\<open>flow.Parallel\<close>, which lies outside the files at hand. Spec,
  sections 4.4 and 5: the tasks of one call run concurrently and are joined before the call
  returns; no order among sibling tasks is guaranteed; a failing task does not stop its
  siblings; the first error is reported. The order in which the tasks take effect on the
  store is the scheduler's choice \<open>sched\<close>, a permutation of the submitted list; each task
  takes effect in one step.\<close>

type_synonym scheduler = "task list \<Rightarrow> task list"

definition permutes :: "scheduler \<Rightarrow> bool" where
  "permutes sched = (\<forall>ts. mset (sched ts) = mset ts)"

fun run_tasks :: "library \<Rightarrow> service \<Rightarrow> task list \<Rightarrow> cluster \<Rightarrow> error list \<times> cluster" where
  "run_tasks lib svc [] c = ([], c)"
| "run_tasks lib svc (t # ts) c =
     (case run_task lib svc t c of
        (r, c') \<Rightarrow>
          (case run_tasks lib svc ts c' of
             (errs, c'') \<Rightarrow> ((case r of None \<Rightarrow> [] | Some e \<Rightarrow> [e]) @ errs, c'')))"

definition Parallel ::
  "scheduler \<Rightarrow> library \<Rightarrow> service \<Rightarrow> task list \<Rightarrow> cluster \<Rightarrow> error option \<times> cluster"
where
  "Parallel sched lib svc taskFns c =
     (case run_tasks lib svc (sched taskFns) c of
        (errs, c') \<Rightarrow> ((case errs of [] \<Rightarrow> None | e # _ \<Rightarrow> Some e), c'))"

section \<open>The NetworkPolicy reconciler\<close>

text \<open>The reconciler holds the selectors compiled from its configuration at start-up.\<close>

record reconciler =
  r_selectors :: "selector list"

fun matchesAny :: "selector list \<Rightarrow> string_map \<Rightarrow> bool" where
  "matchesAny [] ls = False"
| "matchesAny (sel # rest) ls = (if sel ls then True else matchesAny rest ls)"

definition namespaceIsHandled :: "reconciler \<Rightarrow> cluster \<Rightarrow> string \<Rightarrow> error + bool" where
  "namespaceIsHandled r c namespaceName =
     (case client_Get_namespace c namespaceName of
        Inl err \<Rightarrow> Inl (Wrapped (''failed to get namespace '' @ namespaceName) err)
      | Inr ns \<Rightarrow>
          (if length (r_selectors r) = 0 then Inr True
           else Inr (matchesAny (r_selectors r) (meta_labels ns))))"

text \<open>\<^verbatim>\<open>sets.Set[string]\<close> is a list without duplicates.\<close>

definition set_Insert :: "string list \<Rightarrow> string \<Rightarrow> string list" where
  "set_Insert names n = (if n \<in> set names then names else names @ [n])"

fun insertLive :: "object_meta list \<Rightarrow> string list \<Rightarrow> string list" where
  "insertLive [] namespaceNames = namespaceNames"
| "insertLive (ns # items) namespaceNames =
     insertLive items
       (if meta_deletionTimestamp ns = None then set_Insert namespaceNames (meta_name ns)
        else namespaceNames)"

fun relevantLoop :: "library \<Rightarrow> cluster \<Rightarrow> label_selector list \<Rightarrow> string list \<Rightarrow> error + string list" where
  "relevantLoop lib c [] namespaceNames = Inr namespaceNames"
| "relevantLoop lib c (namespaceSelector # rest) namespaceNames =
     (case LabelSelectorAsSelector lib namespaceSelector of
        Inl err \<Rightarrow> Inl (Wrapped ''failed parsing to labels.Selector'' err)
      | Inr sel \<Rightarrow>
          (case client_List_namespaces c sel of
             Inl err \<Rightarrow> Inl (Wrapped ''failed listing namespaces with selector'' err)
           | Inr namespaceList \<Rightarrow> relevantLoop lib c rest (insertLive namespaceList namespaceNames)))"

definition fetchRelevantNamespaceNames :: "library \<Rightarrow> cluster \<Rightarrow> service \<Rightarrow> error + string list" where
  "fetchRelevantNamespaceNames lib c svc =
     (case (case map_of (meta_annotations (svc_meta svc)) NetworkingNamespaceSelectors of
              Some v \<Rightarrow>
                (case unmarshalSelectors lib v of
                   Inl err \<Rightarrow> Inl (Wrapped (''failed unmarshaling '' @ v) err)
                 | Inr sels \<Rightarrow> Inr sels)
            | None \<Rightarrow> Inr []) of
        Inl err \<Rightarrow> Inl err
      | Inr namespaceSelectors \<Rightarrow>
          relevantLoop lib c namespaceSelectors [meta_namespace (svc_meta svc)])"

text \<open>The state of the Service that sends the reconciliation down the clean-up branch.\<close>

definition cleanup_state :: "service \<Rightarrow> bool \<Rightarrow> bool" where
  "cleanup_state svc isNamespaceHandled =
     (meta_deletionTimestamp (svc_meta svc) \<noteq> None \<or> svc_selector svc = None \<or>
      \<not> isNamespaceHandled)"

definition Reconcile ::
  "reconciler \<Rightarrow> library \<Rightarrow> scheduler \<Rightarrow> cluster \<Rightarrow> string \<Rightarrow> string \<Rightarrow> (error + result) \<times> cluster"
where
  "Reconcile r lib sched c reqNamespace reqName =
     (case client_Get_service c reqNamespace reqName of
        Inl err \<Rightarrow>
          (if IsNotFound err then (Inr Result_empty, c)
           else (Inl (Wrapped ''error retrieving object from store'' err), c))
      | Inr svc \<Rightarrow>
     (case client_List_policies c (meta_name (svc_meta svc)) (meta_namespace (svc_meta svc)) of
        Inl err \<Rightarrow>
          (Inl (Wrapped (''failed listing network policies for service '' @ ObjectKeyFromObject svc) err), c)
      | Inr networkPolicyList \<Rightarrow>
     (case namespaceIsHandled r c (meta_namespace (svc_meta svc)) of
        Inl err \<Rightarrow>
          (Inl (Wrapped (''failed checking whether namespace '' @ meta_namespace (svc_meta svc) @
                         '' is handled'') err), c)
      | Inr isNamespaceHandled \<Rightarrow>
          (if cleanup_state svc isNamespaceHandled
           then
             (if ContainsFinalizer (svc_meta svc) finalizerName
              then
                (case Parallel sched lib svc (deleteStalePolicies networkPolicyList []) c of
                   (Some err, c1) \<Rightarrow> (Inl err, c1)
                 | (None, c1) \<Rightarrow>
                     (case RemoveFinalizers c1 svc finalizerName of
                        Inl err \<Rightarrow> (Inl (Wrapped ''failed to remove finalizer'' err), c1)
                      | Inr (svc', c2) \<Rightarrow> (Inr Result_empty, c2)))
              else (Inr Result_empty, c))
           else
             (case (if ContainsFinalizer (svc_meta svc) finalizerName then Inr (svc, c)
                    else AddFinalizers c svc finalizerName) of
                Inl err \<Rightarrow> (Inl (Wrapped ''failed to add finalizer'' err), c)
              | Inr (svc1, c1) \<Rightarrow>
             (case fetchRelevantNamespaceNames lib c1 svc1 of
                Inl err \<Rightarrow> (Inl err, c1)
              | Inr namespaceNames \<Rightarrow>
             (case reconcileDesiredPolicies lib svc1 namespaceNames of
                Inl err \<Rightarrow> (Inl err, c1)
              | Inr (reconcileTaskFns, desiredObjectMetaKeys) \<Rightarrow>
                  (case Parallel sched lib svc1
                          (reconcileTaskFns @ deleteStalePolicies networkPolicyList desiredObjectMetaKeys)
                          c1 of
                     (Some err, c2) \<Rightarrow> (Inl err, c2)
                   | (None, c2) \<Rightarrow> (Inr Result_empty, c2)))))))))"

section \<open>The ManagedResource progressing reconciler\<close>

datatype condition_status = ConditionTrue | ConditionFalse | ConditionUnknown | ConditionProgressing

text \<open>A condition without the two time stamps the clock supplies.\<close>

record condition =
  cond_type :: string
  cond_status :: condition_status
  cond_reason :: string
  cond_message :: string

record object_reference =
  ref_group :: string
  ref_kind :: string
  ref_namespace :: string
  ref_name :: string

record managed_resource =
  mr_meta :: object_meta
  mr_conditions :: "condition list"
  mr_resources :: "object_reference list"

text \<open>A Deployment, StatefulSet or DaemonSet of the target cluster. The verdict of the
  kind's rollout check (\<^verbatim>\<open>health.IsDeploymentProgressing\<close> and its siblings, which lie
  outside the files at hand) is a field of the object.\<close>

record workload =
  wl_kind :: string
  wl_meta :: object_meta
  wl_rollout :: "bool \<times> string"

datatype mr_call =
    GetManagedResource string string
  | UpdateStatus string string
  | GetWorkload string string string

record mr_store =
  ms_resources :: "managed_resource list"
  ms_workloads :: "workload list"
  ms_faults :: "mr_call \<Rightarrow> error option"

text \<open>The reconciler's configuration and the two predicates it consults:
  \<^verbatim>\<open>utils.IsIgnored\<close> and the class filter's \<^verbatim>\<open>Active\<close> (its second result).\<close>

record progressing_reconciler =
  pr_syncPeriod :: nat
  pr_isIgnored :: "managed_resource \<Rightarrow> bool"
  pr_responsible :: "managed_resource \<Rightarrow> bool"

definition ResourcesApplied :: string where
  "ResourcesApplied = ''ResourcesApplied''"

definition ResourcesProgressing :: string where
  "ResourcesProgressing = ''ResourcesProgressing''"

definition SkipHealthCheck :: string where
  "SkipHealthCheck = ''resources.gardener.cloud/skip-health-check''"

text \<open>Modelled from the spec: the condition helpers of \<^verbatim>\<open>v1beta1helper\<close>, which lie outside
  the files at hand. \<open>GetCondition\<close> is the condition of the given type, nil when the list
  has none; a condition that is not there yet starts as \<open>Unknown\<close> (spec, section 4.6);
  merging replaces the condition of the same type or appends it; a built condition needs
  an update when it differs from the old one.\<close>

definition GetCondition :: "condition list \<Rightarrow> string \<Rightarrow> condition option" where
  "GetCondition conditions t = find (\<lambda>c. cond_type c = t) conditions"

definition GetOrInitCondition :: "condition list \<Rightarrow> string \<Rightarrow> condition" where
  "GetOrInitCondition conditions t =
     (case GetCondition conditions t of
        Some c \<Rightarrow> c
      | None \<Rightarrow> \<lparr>cond_type = t, cond_status = ConditionUnknown,
                  cond_reason = ''ConditionInitialized'',
                  cond_message = ''The condition has been initialized but its semantic check has not been performed yet.''\<rparr>)"

definition UpdatedCondition :: "condition \<Rightarrow> condition_status \<Rightarrow> string \<Rightarrow> string \<Rightarrow> condition" where
  "UpdatedCondition c st reason message =
     c\<lparr>cond_status := st, cond_reason := reason, cond_message := message\<rparr>"

fun MergeConditions :: "condition list \<Rightarrow> condition \<Rightarrow> condition list" where
  "MergeConditions [] new = [new]"
| "MergeConditions (c # cs) new =
     (if cond_type c = cond_type new then new # cs else c # MergeConditions cs new)"

definition client_Get_managedResource :: "mr_store \<Rightarrow> string \<Rightarrow> string \<Rightarrow> error + managed_resource" where
  "client_Get_managedResource st ns n =
     (case ms_faults st (GetManagedResource ns n) of
        Some e \<Rightarrow> Inl e
      | None \<Rightarrow>
          (case find (\<lambda>m. same_object ns n (mr_meta m)) (ms_resources st) of
             None \<Rightarrow> Inl (NotFound (ns @ ''/'' @ n))
           | Some m \<Rightarrow> Inr m))"

definition client_Get_workload :: "mr_store \<Rightarrow> string \<Rightarrow> string \<Rightarrow> string \<Rightarrow> error + workload" where
  "client_Get_workload st kind ns n =
     (case ms_faults st (GetWorkload kind ns n) of
        Some e \<Rightarrow> Inl e
      | None \<Rightarrow>
          (case find (\<lambda>w. wl_kind w = kind \<and> same_object ns n (wl_meta w)) (ms_workloads st) of
             None \<Rightarrow> Inl (NotFound (ns @ ''/'' @ n))
           | Some w \<Rightarrow> Inr w))"

text \<open>\<^verbatim>\<open>SourceClient.Status().Update\<close>: the stored object takes the status of the one given.\<close>

definition client_Status_Update :: "mr_store \<Rightarrow> managed_resource \<Rightarrow> error + mr_store" where
  "client_Status_Update st mr =
     (let ns = meta_namespace (mr_meta mr); n = meta_name (mr_meta mr) in
      case ms_faults st (UpdateStatus ns n) of
        Some e \<Rightarrow> Inl e
      | None \<Rightarrow>
          (case find (\<lambda>m. same_object ns n (mr_meta m)) (ms_resources st) of
             None \<Rightarrow> Inl (NotFound (ns @ ''/'' @ n))
           | Some _ \<Rightarrow>
               Inr (st\<lparr>ms_resources :=
                        map (\<lambda>m. if same_object ns n (mr_meta m)
                                  then m\<lparr>mr_conditions := mr_conditions mr, mr_resources := mr_resources mr\<rparr>
                                  else m)
                            (ms_resources st)\<rparr>)))"

definition checkProgressing :: "workload \<Rightarrow> bool \<times> string" where
  "checkProgressing obj =
     (if lookup_or_empty (meta_annotations (wl_meta obj)) SkipHealthCheck = ''true'' then (False, [])
      else if wl_kind obj = ''Deployment'' then wl_rollout obj
      else if wl_kind obj = ''StatefulSet'' then wl_rollout obj
      else if wl_kind obj = ''DaemonSet'' then wl_rollout obj
      else (False, []))"

definition RequeueAfter :: "nat \<Rightarrow> result" where
  "RequeueAfter d = \<lparr>res_requeue = False, res_requeueAfter = d\<rparr>"

text \<open>The loop over the tracked resources: \<open>None\<close> when it runs to its end, the value
  returned from inside it otherwise. (\<^verbatim>\<open>%q\<close> puts the object key in double quotes.)\<close>

fun progressingLoop ::
  "progressing_reconciler \<Rightarrow> mr_store \<Rightarrow> managed_resource \<Rightarrow> condition \<Rightarrow> object_reference list \<Rightarrow>
   ((error + result) \<times> mr_store) option"
where
  "progressingLoop r st mr conditionResourcesProgressing [] = None"
| "progressingLoop r st mr conditionResourcesProgressing (ref # refs) =
     (if ref_group ref \<noteq> ''apps'' then progressingLoop r st mr conditionResourcesProgressing refs
      else if ref_kind ref \<noteq> ''Deployment'' \<and> ref_kind ref \<noteq> ''StatefulSet'' \<and> ref_kind ref \<noteq> ''DaemonSet''
      then progressingLoop r st mr conditionResourcesProgressing refs
      else
        (case client_Get_workload st (ref_kind ref) (ref_namespace ref) (ref_name ref) of
           Inl err \<Rightarrow>
             (if IsNotFound err then progressingLoop r st mr conditionResourcesProgressing refs
              else Some (Inl err, st))
         | Inr obj \<Rightarrow>
             (case checkProgressing obj of
                (True, description) \<Rightarrow>
                  (let reason = ref_kind ref @ ''Progressing'';
                       message = ref_kind ref @ '' '' @ [CHR 0x22] @ ref_namespace ref @ ''/'' @ ref_name ref @
                                 [CHR 0x22] @ '' is progressing: '' @ description;
                       cond' = UpdatedCondition conditionResourcesProgressing ConditionTrue reason message;
                       mr' = mr\<lparr>mr_conditions := MergeConditions (mr_conditions mr) cond'\<rparr>
                   in case client_Status_Update st mr' of
                        Inl err \<Rightarrow> Some (Inl (Wrapped ''could not update the ManagedResource status'' err), st)
                      | Inr st' \<Rightarrow> Some (Inr (RequeueAfter (pr_syncPeriod r)), st'))
              | (False, _) \<Rightarrow> progressingLoop r st mr conditionResourcesProgressing refs)))"

definition progressing_reconcile ::
  "progressing_reconciler \<Rightarrow> mr_store \<Rightarrow> managed_resource \<Rightarrow> (error + result) \<times> mr_store"
where
  "progressing_reconcile r st mr =
     (let conditionResourcesProgressing = GetOrInitCondition (mr_conditions mr) ResourcesProgressing in
      case progressingLoop r st mr conditionResourcesProgressing (mr_resources mr) of
        Some outcome \<Rightarrow> outcome
      | None \<Rightarrow>
          (let new = UpdatedCondition conditionResourcesProgressing ConditionFalse ''ResourcesRolledOut''
                       ''All resources have been fully rolled out.'';
               needsUpdate = (new \<noteq> conditionResourcesProgressing)
           in if needsUpdate
              then (case client_Status_Update st
                           (mr\<lparr>mr_conditions := MergeConditions (mr_conditions mr) new\<rparr>) of
                      Inl err \<Rightarrow> (Inl (Wrapped ''could not update the ManagedResource status'' err), st)
                    | Inr st' \<Rightarrow> (Inr (RequeueAfter (pr_syncPeriod r)), st'))
              else (Inr (RequeueAfter (pr_syncPeriod r)), st)))"

text \<open>The gate on the Applied condition, as the entry point tests it.\<close>

definition applied_pending :: "managed_resource \<Rightarrow> bool" where
  "applied_pending mr =
     (case GetCondition (mr_conditions mr) ResourcesApplied of
        None \<Rightarrow> True
      | Some conditionResourcesApplied \<Rightarrow>
          cond_status conditionResourcesApplied = ConditionProgressing \<or>
          cond_status conditionResourcesApplied = ConditionFalse)"

definition progressing_Reconcile ::
  "progressing_reconciler \<Rightarrow> mr_store \<Rightarrow> string \<Rightarrow> string \<Rightarrow> (error + result) \<times> mr_store"
where
  "progressing_Reconcile r st reqNamespace reqName =
     (case client_Get_managedResource st reqNamespace reqName of
        Inl err \<Rightarrow>
          (if IsNotFound err then (Inr Result_empty, st)
           else (Inl (Wrapped ''error retrieving object from store'' err), st))
      | Inr mr \<Rightarrow>
          (if pr_isIgnored r mr then (Inr Result_empty, st)
           else if \<not> pr_responsible r mr then (Inr Result_empty, st)
           else if meta_deletionTimestamp (mr_meta mr) \<noteq> None then (Inr Result_empty, st)
           else if applied_pending mr then (Inr (RequeueAfter (pr_syncPeriod r)), st)
           else progressing_reconcile r st mr))"

section \<open>The identity key of a derivation tuple\<close>

text \<open>The loop body of \<open>addTasksForRelevantNamespacesAndPort\<close> ranges over the ingress and
  the egress pair of functions; \<open>tasksForNamespace\<close> is what it appends for one namespace,
  and \<open>identityKey\<close> is the key it appends for one port, namespace and kind when no custom
  pod label selector is given.\<close>

datatype policy_kind = Ingress | Egress

definition objectMetaFor :: "policy_kind \<Rightarrow> string \<Rightarrow> string \<Rightarrow> string \<Rightarrow> object_meta" where
  "objectMetaFor kind policyID serviceNamespace namespaceName =
     (case kind of
        Ingress \<Rightarrow> ingressPolicyObjectMetaFor policyID serviceNamespace namespaceName
      | Egress \<Rightarrow> egressPolicyObjectMetaFor policyID serviceNamespace namespaceName)"

definition identityKey ::
  "string \<Rightarrow> string \<Rightarrow> network_policy_port \<Rightarrow> string \<Rightarrow> policy_kind \<Rightarrow> error + string"
where
  "identityKey serviceName serviceNamespace p namespaceName kind =
     (case policyIDFor serviceName p of
        Inl e \<Rightarrow> Inl e
      | Inr policyID \<Rightarrow> Inr (key (objectMetaFor kind policyID serviceNamespace namespaceName)))"

definition tasksForNamespace ::
  "service \<Rightarrow> network_policy_port \<Rightarrow> string \<Rightarrow> string \<Rightarrow> string \<Rightarrow> task list"
where
  "tasksForNamespace svc p policyID podLabelSelector n =
     [ReconcileIngressPolicy p (ingressPolicyObjectMetaFor policyID (meta_namespace (svc_meta svc)) n) n
        (matchLabelsForServiceAndNamespace podLabelSelector svc n),
      ReconcileEgressPolicy p (egressPolicyObjectMetaFor policyID (meta_namespace (svc_meta svc)) n) n
        (matchLabelsForServiceAndNamespace podLabelSelector svc n)]"


section \<open>The list handed to the parallel flow\<close>




section \<open>Annotations that do not parse\<close>




section \<open>Example objects\<close>

text \<open>The library functions on the few inputs the examples use. The annotation texts are
  written without the quotation marks of JSON; every text that is not listed is rejected.
  A selector without match expressions compiles to the test that every one of its labels
  is carried.\<close>

definition tcp80 :: network_policy_port where
  "tcp80 = \<lparr>npp_protocol = Some ''TCP'', npp_port = Some (IntVal 80)\<rparr>"

definition lib0 :: library where
  "lib0 = \<lparr>unmarshalSelectors =
             (\<lambda>v. if v = ''[]'' then Inr []
                  else if v = ''[{matchLabels:{other:ns}}]'' then Inr [MatchLabels [(''other'', ''ns'')]]
                  else Inl (UnmarshalError v)),
           unmarshalPorts =
             (\<lambda>v. if v = ''[]'' then Inr []
                  else if v = ''[{port:80,protocol:TCP}]'' then Inr [tcp80]
                  else Inl (UnmarshalError v)),
           LabelSelectorAsSelector =
             (\<lambda>sel. if ls_matchExpressions sel = []
                     then Inr (\<lambda>ls. list_all (\<lambda>kv. map_of ls (fst kv) = Some (snd kv)) (ls_matchLabels sel))
                     else Inl (SelectorError ''operator'')),
           formatPorts = (\<lambda>ports. ''[]'')\<rparr>"

definition no_faults :: "api_call \<Rightarrow> error option" where
  "no_faults = (\<lambda>call. None)"

definition global_reconciler :: reconciler where
  "global_reconciler = \<lparr>r_selectors = []\<rparr>"

definition in_order :: scheduler where
  "in_order = (\<lambda>ts. ts)"

definition ns1 :: object_meta where
  "ns1 = ObjectMeta ''ns1'' []"

text \<open>Scenario A of the spec: Service \<open>svc1\<close> in namespace \<open>ns1\<close>, selector \<open>app: foo\<close>, one
  port with protocol TCP and target port 80, no annotations.\<close>

definition svc1 :: service where
  "svc1 = \<lparr>svc_meta = ObjectMeta ''svc1'' ''ns1'',
            svc_selector = Some [(''app'', ''foo'')],
            svc_ports = [\<lparr>sp_name = ''http'', sp_protocol = ''TCP'', sp_port = 80,
                          sp_targetPort = IntVal 80\<rparr>]\<rparr>"

definition cluster1 :: cluster where
  "cluster1 = \<lparr>cl_services = [svc1], cl_namespaces = [ns1], cl_policies = [],
                cl_faults = no_faults\<rparr>"

definition empty_spec :: network_policy_spec where
  "empty_spec = \<lparr>spec_podSelector = MatchLabels [], spec_ingress = [], spec_egress = [],
                  spec_policyTypes = []\<rparr>"

text \<open>Two listed policies of \<open>svc1\<close>: one that is desired, one left over from a removed port.\<close>

definition policy_kept :: network_policy where
  "policy_kept = \<lparr>np_meta = setBackReferences svc1 (ObjectMeta ''ingress-to-svc1-tcp-80'' ''ns1''),
                   np_spec = empty_spec\<rparr>"

definition policy_stale :: network_policy where
  "policy_stale = \<lparr>np_meta = setBackReferences svc1 (ObjectMeta ''ingress-to-svc1-tcp-81'' ''ns1''),
                    np_spec = empty_spec\<rparr>"

text \<open>The Service once the finalizer is on it, and the store holding it.\<close>

definition svc1_final :: service where
  "svc1_final = svc1\<lparr>svc_meta := (svc_meta svc1)\<lparr>meta_finalizers := [finalizerName]\<rparr>\<rparr>"

definition cluster1_final :: cluster where
  "cluster1_final = cluster1\<lparr>cl_services := [svc1_final]\<rparr>"

text \<open>The two tasks and the two policies of scenario A.\<close>

definition taskA_ingress :: task where
  "taskA_ingress = ReconcileIngressPolicy tcp80 (ObjectMeta ''ingress-to-svc1-tcp-80'' ''ns1'') ''ns1''
     [(''networking.resources.gardener.cloud/to-svc1-tcp-80'', ''allowed'')]"

definition taskA_egress :: task where
  "taskA_egress = ReconcileEgressPolicy tcp80 (ObjectMeta ''egress-to-svc1-tcp-80'' ''ns1'') ''ns1''
     [(''networking.resources.gardener.cloud/to-svc1-tcp-80'', ''allowed'')]"

definition scenarioA_ingress :: network_policy where
  "scenarioA_ingress =
     \<lparr>np_meta =
        \<lparr>meta_name = ''ingress-to-svc1-tcp-80'', meta_namespace = ''ns1'',
         meta_labels = [(''networking.resources.gardener.cloud/service-name'', ''svc1''),
                        (''networking.resources.gardener.cloud/service-namespace'', ''ns1'')],
         meta_annotations =
           [(''gardener.cloud/description'',
             ''Allows ingress TCP traffic to port 80 for pods selected by the ns1/svc1 service selector from pods running in namespace ns1 labeled with map[networking.resources.gardener.cloud/to-svc1-tcp-80:allowed].'')],
         meta_finalizers = [], meta_deletionTimestamp = None\<rparr>,
      np_spec =
        \<lparr>spec_podSelector = MatchLabels [(''app'', ''foo'')],
         spec_ingress =
           [\<lparr>rule_peers =
               [\<lparr>peer_podSelector =
                   Some (MatchLabels [(''networking.resources.gardener.cloud/to-svc1-tcp-80'', ''allowed'')]),
                 peer_namespaceSelector = None, peer_ipBlock = None\<rparr>],
             rule_ports = [tcp80]\<rparr>],
         spec_egress = [],
         spec_policyTypes = [PolicyTypeIngress]\<rparr>\<rparr>"

definition scenarioA_egress :: network_policy where
  "scenarioA_egress =
     \<lparr>np_meta =
        \<lparr>meta_name = ''egress-to-svc1-tcp-80'', meta_namespace = ''ns1'',
         meta_labels = [(''networking.resources.gardener.cloud/service-name'', ''svc1''),
                        (''networking.resources.gardener.cloud/service-namespace'', ''ns1'')],
         meta_annotations =
           [(''gardener.cloud/description'',
             ''Allows egress TCP traffic to port 80 from pods running in namespace ns1 labeled with map[networking.resources.gardener.cloud/to-svc1-tcp-80:allowed] to pods selected by the ns1/svc1 service selector.'')],
         meta_finalizers = [], meta_deletionTimestamp = None\<rparr>,
      np_spec =
        \<lparr>spec_podSelector = MatchLabels [(''networking.resources.gardener.cloud/to-svc1-tcp-80'', ''allowed'')],
         spec_ingress = [],
         spec_egress =
           [\<lparr>rule_peers =
               [\<lparr>peer_podSelector = Some (MatchLabels [(''app'', ''foo'')]),
                 peer_namespaceSelector = None, peer_ipBlock = None\<rparr>],
             rule_ports = [tcp80]\<rparr>],
         spec_policyTypes = [PolicyTypeEgress]\<rparr>\<rparr>"

text \<open>Ports whose rendered names meet: a port named \<open>http\<close> fanned out to namespace
  \<open>ns2\<close> and a port named \<open>http-from-ns2\<close>; the number 80 and the string \<open>80\<close>.\<close>

definition port_http :: network_policy_port where
  "port_http = \<lparr>npp_protocol = Some ''TCP'', npp_port = Some (StrVal ''http'')\<rparr>"

definition port_http_from_ns2 :: network_policy_port where
  "port_http_from_ns2 = \<lparr>npp_protocol = Some ''TCP'', npp_port = Some (StrVal ''http-from-ns2'')\<rparr>"

definition port_string80 :: network_policy_port where
  "port_string80 = \<lparr>npp_protocol = Some ''tcp'', npp_port = Some (StrVal ''80'')\<rparr>"


text \<open>Scenario C of the spec: a second namespace \<open>ns2\<close> labelled \<open>other: ns\<close>, which the
  Service selects by its namespace-selectors annotation; \<open>ns3\<close> carries the label too but
  is being deleted.\<close>

definition ns2 :: object_meta where
  "ns2 = (ObjectMeta ''ns2'' [])\<lparr>meta_labels := [(''other'', ''ns'')]\<rparr>"

definition ns3 :: object_meta where
  "ns3 = (ObjectMeta ''ns3'' [])\<lparr>meta_labels := [(''other'', ''ns'')], meta_deletionTimestamp := Some 5\<rparr>"

definition svcC :: service where
  "svcC = svc1\<lparr>svc_meta := (svc_meta svc1)\<lparr>meta_annotations :=
            [(NetworkingNamespaceSelectors, ''[{matchLabels:{other:ns}}]'')]\<rparr>\<rparr>"

definition clusterC :: cluster where
  "clusterC = \<lparr>cl_services = [svcC], cl_namespaces = [ns1, ns2, ns3], cl_policies = [],
                cl_faults = no_faults\<rparr>"

text \<open>A reconciler restricted to the namespaces labelled \<open>other: ns\<close>.\<close>

definition selecting_reconciler :: reconciler where
  "selecting_reconciler = \<lparr>r_selectors = [\<lambda>ls. map_of ls ''other'' = Some ''ns'']\<rparr>"

text \<open>The Service's own namespace while it is being deleted.\<close>

definition ns1_terminating :: object_meta where
  "ns1_terminating = ns1\<lparr>meta_deletionTimestamp := Some 7\<rparr>"

definition cluster_terminating :: cluster where
  "cluster_terminating = cluster1\<lparr>cl_namespaces := [ns1_terminating]\<rparr>"

text \<open>A ManagedResource whose resources have not been applied, with a Deployment in
  rollout; the same one marked as ignored; the same one once applied.\<close>

definition deployment1 :: workload where
  "deployment1 = \<lparr>wl_kind = ''Deployment'', wl_meta = ObjectMeta ''dep1'' ''ns1'',
                   wl_rollout = (True, ''rollout'')\<rparr>"

definition mr1 :: managed_resource where
  "mr1 = \<lparr>mr_meta = ObjectMeta ''mr1'' ''ns1'',
           mr_conditions = [\<lparr>cond_type = ''ResourcesApplied'', cond_status = ConditionFalse,
                             cond_reason = ''ApplyFailed'', cond_message = []\<rparr>],
           mr_resources = [\<lparr>ref_group = ''apps'', ref_kind = ''Deployment'', ref_namespace = ''ns1'',
                            ref_name = ''dep1''\<rparr>]\<rparr>"

definition mr1_ignored :: managed_resource where
  "mr1_ignored = mr1\<lparr>mr_meta := (mr_meta mr1)\<lparr>meta_annotations :=
                   [(''resources.gardener.cloud/ignore'', ''true'')]\<rparr>\<rparr>"

definition mr1_applied :: managed_resource where
  "mr1_applied = mr1\<lparr>mr_conditions := [\<lparr>cond_type = ''ResourcesApplied'', cond_status = ConditionTrue,
                                          cond_reason = ''ApplySucceeded'', cond_message = []\<rparr>]\<rparr>"

definition mr_store_of :: "managed_resource \<Rightarrow> mr_store" where
  "mr_store_of mr = \<lparr>ms_resources = [mr], ms_workloads = [deployment1], ms_faults = (\<lambda>call. None)\<rparr>"

definition pr0 :: progressing_reconciler where
  "pr0 = \<lparr>pr_syncPeriod = 60000000000,
          pr_isIgnored = (\<lambda>mr. lookup_or_empty (meta_annotations (mr_meta mr))
                                  ''resources.gardener.cloud/ignore'' = ''true''),
          pr_responsible = (\<lambda>mr. True)\<rparr>"


text \<open>The Service of scenario A, finalizer in place, with a from-world annotation that does
  not parse; the from-world policy an earlier reconciliation created for it.\<close>

definition svcW :: service where
  "svcW = svc1_final\<lparr>svc_meta := (svc_meta svc1_final)\<lparr>meta_annotations :=
            [(NetworkingFromWorldToPorts, ''garbage'')]\<rparr>\<rparr>"

definition clusterW :: cluster where
  "clusterW = \<lparr>cl_services = [svcW], cl_namespaces = [ns1], cl_policies = [],
                cl_faults = no_faults\<rparr>"

definition policy_from_world :: network_policy where
  "policy_from_world = \<lparr>np_meta = setBackReferences svc1 (ObjectMeta ''ingress-to-svc1-from-world'' ''ns1''),
                         np_spec = empty_spec\<rparr>"




text \<open>The unapplied ManagedResource while it is being deleted, and a reconciler of another
  class, which is not responsible for any ManagedResource.\<close>

definition mr1_deleting :: managed_resource where
  "mr1_deleting = mr1\<lparr>mr_meta := (mr_meta mr1)\<lparr>meta_deletionTimestamp := Some 9\<rparr>\<rparr>"

definition pr_other_class :: progressing_reconciler where
  "pr_other_class = pr0\<lparr>pr_responsible := (\<lambda>mr. False)\<rparr>"


text \<open>The Service of scenario A while it is being deleted, its two policies and a policy of
  somebody else in the store; and the Service without selector and without finalizer.\<close>

definition svc_deleting :: service where
  "svc_deleting = svc1_final\<lparr>svc_meta := (svc_meta svc1_final)\<lparr>meta_deletionTimestamp := Some 3\<rparr>\<rparr>"

definition policy_other :: network_policy where
  "policy_other = \<lparr>np_meta = ObjectMeta ''allow-dns'' ''ns1'', np_spec = empty_spec\<rparr>"

definition cluster_deleting :: cluster where
  "cluster_deleting = \<lparr>cl_services = [svc_deleting], cl_namespaces = [ns1],
                        cl_policies = [scenarioA_ingress, policy_other, scenarioA_egress],
                        cl_faults = no_faults\<rparr>"

definition svc_unselected :: service where
  "svc_unselected = svc1\<lparr>svc_selector := None\<rparr>"

definition cluster_unselected :: cluster where
  "cluster_unselected = \<lparr>cl_services = [svc_unselected], cl_namespaces = [ns1],
                          cl_policies = [policy_other], cl_faults = no_faults\<rparr>"




section \<open>Stale policies are found by their key\<close>

lemma desiredKeySet_fold:
  "fold (\<lambda>k m. m(k \<mapsto> ())) ks m0 k = None \<longleftrightarrow> k \<notin> set ks \<and> m0 k = None"
  by (induction ks arbitrary: m0) auto

lemma desiredKeySet_None: "desiredKeySet ks k = None \<longleftrightarrow> k \<notin> set ks"
  by (simp add: desiredKeySet_def desiredKeySet_fold)

lemma deleteStaleLoop_filter:
  "deleteStaleLoop m items acc = acc @ map DeleteObject (filter (\<lambda>n. m (key n) = None) items)"
  by (induction items arbitrary: acc) auto

lemma deleteStalePolicies_filter:
  "deleteStalePolicies items desired = map DeleteObject (filter (\<lambda>n. key n \<notin> set desired) items)"
  by (simp add: deleteStalePolicies_def deleteStaleLoop_filter desiredKeySet_None)

text \<open>
  C9. The delete phase schedules a listed policy for deletion exactly when its
  \<open>namespace/name\<close> key is not among the desired keys, in the order of the list. The
  list holds metadata only, so replacing the specs of the stored policies by anything else
  changes nothing; with no desired key every listed policy is scheduled.
\<close>

theorem deleteStalePolicies_by_key:
  "deleteStalePolicies (map np_meta ps) desired =
     map DeleteObject (filter (\<lambda>m. key m \<notin> set desired) (map np_meta ps))
   \<and> deleteStalePolicies (map np_meta ps) [] = map DeleteObject (map np_meta ps)
   \<and> deleteStalePolicies (map np_meta (map (\<lambda>p. p\<lparr>np_spec := f p\<rparr>) ps)) desired =
       deleteStalePolicies (map np_meta ps) desired"
  by (simp add: deleteStalePolicies_filter comp_def)

theorem deleteStalePolicies_by_key_witness:
  "deleteStalePolicies (map np_meta [policy_kept, policy_stale]) [''ns1/ingress-to-svc1-tcp-80''] =
     [DeleteObject (np_meta policy_stale)]
   \<and> deleteStalePolicies (map np_meta [policy_kept, policy_stale]) [] =
     [DeleteObject (np_meta policy_kept), DeleteObject (np_meta policy_stale)]"
  using deleteStalePolicies_by_key [of "[policy_kept, policy_stale]" "[''ns1/ingress-to-svc1-tcp-80'']"]
  by (simp add: key_def policy_kept_def policy_stale_def setBackReferences_def
      SetMetaDataLabel_def ObjectMeta_def)

section \<open>Identity keys\<close>

lemmas model_defs = Reconcile_def client_Get_service_def client_List_policies_def namespaceIsHandled_def
  client_Get_namespace_def cleanup_state_def ContainsFinalizer_def AddFinalizers_def patch_finalizers_def
  fetchRelevantNamespaceNames_def reconcileDesiredPolicies_def addTasksForRelevantNamespacesAndPort_def
  policyIDFor_def servicePortAsPolicyPort_def matchLabelsForServiceAndNamespace_def
  ingressPolicyObjectMetaFor_def egressPolicyObjectMetaFor_def key_def ObjectMeta_def
  deleteStalePolicies_def desiredKeySet_def Parallel_def reconcileIngressPolicy_def reconcileEgressPolicy_def
  GetAndCreateOrMergePatch_def ingressPolicyMutate_def egressPolicyMutate_def portStrings_def
  same_object_def lookup_or_empty_def carries_labels_def

lemmas example_defs = cluster1_def svc1_def ns1_def lib0_def no_faults_def global_reconciler_def
  in_order_def tcp80_def

lemmas eval_defs = model_defs example_defs Itoa_def ToLower_def toLower_char_def
  NetworkingNamespaceSelectors_def NetworkingFromWorldToPorts_def NetworkingFromPolicyPodLabelSelector_def
  NetworkingFromPolicyAllowedPorts_def finalizerName_def Let_def

lemma split_at_char:
  "c \<notin> set a \<Longrightarrow> c \<notin> set b \<Longrightarrow> a @ c # x = b @ c # y \<Longrightarrow> a = b \<and> x = y"
proof (induction a arbitrary: b)
  case Nil
  then show ?case by (cases b) auto
next
  case (Cons h a)
  then show ?case by (cases b) auto
qed

lemma no_char_suffix:
  "c \<notin> set a \<Longrightarrow> c \<notin> set b \<Longrightarrow> a @ c # x = b \<Longrightarrow> False"
  by auto

lemma toLower_char_dash: "toLower_char c = CHR ''-'' \<longleftrightarrow> c = CHR ''-''"
  by (auto simp: toLower_char_def split: option.splits if_splits)

lemma ToLower_dash: "CHR ''-'' \<in> set (ToLower s) \<longleftrightarrow> CHR ''-'' \<in> set s"
proof -
  have "CHR ''-'' = toLower_char c \<longleftrightarrow> c = CHR ''-''" for c
    using toLower_char_dash [of c] by auto
  then show ?thesis
    unfolding ToLower_def by (induction s) auto
qed

lemma key_ingress:
  "key (ingressPolicyObjectMetaFor policyID sns n) =
     sns @ CHR ''/'' # ''ingress-to-'' @ policyID @ (if sns \<noteq> n then ''-from-'' @ n else [])"
  by (simp add: key_def ingressPolicyObjectMetaFor_def ObjectMeta_def)

lemma key_egress:
  "key (egressPolicyObjectMetaFor policyID sns n) =
     n @ CHR ''/'' # ''egress-to-'' @ (if sns \<noteq> n then sns @ ''-'' else []) @ policyID"
  by (simp add: key_def egressPolicyObjectMetaFor_def ObjectMeta_def)

lemma rendered_suffix:
  assumes d: "CHR ''-'' \<notin> set l1" "CHR ''-'' \<notin> set l2" "CHR ''-'' \<notin> set s1" "CHR ''-'' \<notin> set s2"
    and e: "l1 @ CHR ''-'' # s1 @ x1 = l2 @ CHR ''-'' # s2 @ x2"
    and x1: "x1 = [] \<or> (\<exists>t. x1 = CHR ''-'' # t)"
    and x2: "x2 = [] \<or> (\<exists>t. x2 = CHR ''-'' # t)"
  shows "l1 = l2 \<and> s1 = s2 \<and> x1 = x2"
proof -
  from d(1,2) e have l: "l1 = l2" and r: "s1 @ x1 = s2 @ x2"
    using split_at_char [of "CHR ''-''" l1 l2 "s1 @ x1" "s2 @ x2"] by simp_all
  from x1 x2 have "s1 = s2 \<and> x1 = x2"
  proof (elim disjE exE)
    fix t u assume "x1 = CHR ''-'' # t" "x2 = CHR ''-'' # u"
    with r d(3,4) show ?thesis using split_at_char [of "CHR ''-''" s1 s2 t u] by simp
  next
    fix t assume "x1 = []" "x2 = CHR ''-'' # t"
    with r d(3) show ?thesis by auto
  next
    fix t assume "x1 = CHR ''-'' # t" "x2 = []"
    with r d(4) show ?thesis by auto
  next
    assume "x1 = []" "x2 = []"
    with r show ?thesis by simp
  qed
  with l show ?thesis by simp
qed

text \<open>
  C5, as amended. The key is a function of the Service's name and namespace, the port, the
  namespace and the kind, and of nothing else. Two tuples of one Service with the same key
  have the same kind, the same namespace, the same lower-cased protocol and the same port
  string, provided that neither protocol nor port string contains a hyphen and no namespace
  name contains a slash. (A port is told apart only by its rendering: the number 80 and
  the string \<open>80\<close> render alike.)
\<close>

theorem identityKey_injective:
  assumes p1: "npp_protocol p1 = Some proto1" "npp_port p1 = Some tp1"
    and p2: "npp_protocol p2 = Some proto2" "npp_port p2 = Some tp2"
    and d1: "CHR ''-'' \<notin> set proto1" "CHR ''-'' \<notin> set (IntOrString_String tp1)"
    and d2: "CHR ''-'' \<notin> set proto2" "CHR ''-'' \<notin> set (IntOrString_String tp2)"
    and s: "CHR ''/'' \<notin> set serviceNamespace" "CHR ''/'' \<notin> set n1" "CHR ''/'' \<notin> set n2"
    and e: "identityKey serviceName serviceNamespace p1 n1 k1 =
            identityKey serviceName serviceNamespace p2 n2 k2"
  shows "ToLower proto1 = ToLower proto2 \<and> IntOrString_String tp1 = IntOrString_String tp2
         \<and> n1 = n2 \<and> k1 = k2"
proof -
  define l1 where "l1 = ToLower proto1"
  define l2 where "l2 = ToLower proto2"
  define s1 where "s1 = IntOrString_String tp1"
  define s2 where "s2 = IntOrString_String tp2"
  define x1 where "x1 = (if serviceNamespace \<noteq> n1 then ''-from-'' @ n1 else [])"
  define x2 where "x2 = (if serviceNamespace \<noteq> n2 then ''-from-'' @ n2 else [])"
  define y1 where "y1 = (if serviceNamespace \<noteq> n1 then serviceNamespace @ ''-'' else [])"
  define y2 where "y2 = (if serviceNamespace \<noteq> n2 then serviceNamespace @ ''-'' else [])"
  have l: "CHR ''-'' \<notin> set l1" "CHR ''-'' \<notin> set l2"
    using d1(1) d2(1) by (simp_all add: ToLower_dash l1_def l2_def)
  have ds: "CHR ''-'' \<notin> set s1" "CHR ''-'' \<notin> set s2"
    using d1(2) d2(2) by (simp_all add: s1_def s2_def)
  have x: "x1 = [] \<or> (\<exists>t. x1 = CHR ''-'' # t)" "x2 = [] \<or> (\<exists>t. x2 = CHR ''-'' # t)"
    by (simp_all add: x1_def x2_def)
  have xn: "x1 = x2 \<Longrightarrow> n1 = n2"
    by (auto simp: x1_def x2_def split: if_splits)
  have id1: "policyIDFor serviceName p1 = Inr (serviceName @ CHR ''-'' # l1 @ CHR ''-'' # s1)"
    and id2: "policyIDFor serviceName p2 = Inr (serviceName @ CHR ''-'' # l2 @ CHR ''-'' # s2)"
    using p1 p2 by (simp_all add: policyIDFor_def l1_def l2_def s1_def s2_def)
  have ki: "\<And>n p pid. policyIDFor serviceName p = Inr pid \<Longrightarrow>
      identityKey serviceName serviceNamespace p n Ingress =
        Inr (serviceNamespace @ CHR ''/'' # ''ingress-to-'' @ pid @
             (if serviceNamespace \<noteq> n then ''-from-'' @ n else []))"
    by (simp only: identityKey_def objectMetaFor_def key_ingress sum.case policy_kind.case)
  have ke: "\<And>n p pid. policyIDFor serviceName p = Inr pid \<Longrightarrow>
      identityKey serviceName serviceNamespace p n Egress =
        Inr (n @ CHR ''/'' # ''egress-to-'' @
             (if serviceNamespace \<noteq> n then serviceNamespace @ ''-'' else []) @ pid)"
    by (simp only: identityKey_def objectMetaFor_def key_egress sum.case policy_kind.case)
  note ki1 = ki [OF id1, of n1, folded x1_def] and ki2 = ki [OF id2, of n2, folded x2_def]
  note ke1 = ke [OF id1, of n1, folded y1_def] and ke2 = ke [OF id2, of n2, folded y2_def]
  show ?thesis
  proof (cases k1; cases k2)
    assume k: "k1 = Ingress" "k2 = Ingress"
    from e have "l1 @ CHR ''-'' # s1 @ x1 = l2 @ CHR ''-'' # s2 @ x2"
      unfolding k ki1 ki2 by simp
    from rendered_suffix [OF l ds this x] xn k show ?thesis
      by (simp add: l1_def l2_def s1_def s2_def)
  next
    assume k: "k1 = Ingress" "k2 = Egress"
    from e have "serviceNamespace @ CHR ''/'' # (''ingress-to-'' @ serviceName @ CHR ''-'' # l1 @ CHR ''-'' # s1 @ x1)
       = n2 @ CHR ''/'' # (''egress-to-'' @ y2 @ serviceName @ CHR ''-'' # l2 @ CHR ''-'' # s2)"
      unfolding k ki1 ke2 by simp
    from split_at_char [OF s(1) s(3) this] show ?thesis by simp
  next
    assume k: "k1 = Egress" "k2 = Ingress"
    from e have "n1 @ CHR ''/'' # (''egress-to-'' @ y1 @ serviceName @ CHR ''-'' # l1 @ CHR ''-'' # s1)
       = serviceNamespace @ CHR ''/'' # (''ingress-to-'' @ serviceName @ CHR ''-'' # l2 @ CHR ''-'' # s2 @ x2)"
      unfolding k ke1 ki2 by simp
    from split_at_char [OF s(2) s(1) this] show ?thesis by simp
  next
    assume k: "k1 = Egress" "k2 = Egress"
    from e have "n1 @ CHR ''/'' # (''egress-to-'' @ y1 @ serviceName @ CHR ''-'' # l1 @ CHR ''-'' # s1)
       = n2 @ CHR ''/'' # (''egress-to-'' @ y2 @ serviceName @ CHR ''-'' # l2 @ CHR ''-'' # s2)"
      unfolding k ke1 ke2 by simp
    from split_at_char [OF s(2) s(3) this] have n: "n1 = n2"
      and r: "y1 @ serviceName @ CHR ''-'' # l1 @ CHR ''-'' # s1 = y2 @ serviceName @ CHR ''-'' # l2 @ CHR ''-'' # s2"
      by simp_all
    from n have "y1 = y2" by (simp add: y1_def y2_def)
    with r have "l1 @ CHR ''-'' # s1 @ [] = l2 @ CHR ''-'' # s2 @ []" by simp
    from rendered_suffix [OF l ds this] n k show ?thesis
      by (simp add: l1_def l2_def s1_def s2_def)
  qed
qed


text \<open>The theorem at the port TCP/80 and the port tcp/"80" in namespace \<open>ns1\<close>: the
  hypotheses hold, the two keys are equal, and the renderings agree.\<close>

theorem identityKey_injective_witness:
  "identityKey ''svc1'' ''ns1'' tcp80 ''ns1'' Ingress = Inr ''ns1/ingress-to-svc1-tcp-80''
   \<and> identityKey ''svc1'' ''ns1'' port_string80 ''ns1'' Ingress = Inr ''ns1/ingress-to-svc1-tcp-80''
   \<and> CHR ''-'' \<notin> set ''TCP'' \<and> CHR ''-'' \<notin> set (IntOrString_String (IntVal 80))
   \<and> CHR ''/'' \<notin> set ''ns1''
   \<and> ToLower ''TCP'' = ToLower ''tcp''
   \<and> IntOrString_String (IntVal 80) = IntOrString_String (StrVal ''80'')"
proof -
  have k: "identityKey ''svc1'' ''ns1'' tcp80 ''ns1'' Ingress = Inr ''ns1/ingress-to-svc1-tcp-80''"
    "identityKey ''svc1'' ''ns1'' port_string80 ''ns1'' Ingress = Inr ''ns1/ingress-to-svc1-tcp-80''"
    by (simp_all add: identityKey_def objectMetaFor_def eval_defs port_string80_def)
  have h: "CHR ''-'' \<notin> set ''TCP''" "CHR ''-'' \<notin> set (IntOrString_String (IntVal 80))"
    "CHR ''-'' \<notin> set ''tcp''" "CHR ''-'' \<notin> set (IntOrString_String (StrVal ''80''))"
    "CHR ''/'' \<notin> set ''ns1''"
    by (simp_all add: Itoa_def)
  from identityKey_injective [of tcp80 "''TCP''" "IntVal 80" port_string80 "''tcp''" "StrVal ''80''"
      "''ns1''" "''ns1''" "''ns1''" "''svc1''" Ingress Ingress]
  have "ToLower ''TCP'' = ToLower ''tcp'' \<and>
        IntOrString_String (IntVal 80) = IntOrString_String (StrVal ''80'')"
    using k h by (simp add: tcp80_def port_string80_def)
  with k h show ?thesis by simp
qed

text \<open>C5 as stated fails: within the Service \<open>svc1\<close> of namespace \<open>ns1\<close>, the port named
  \<open>http\<close> fanned out to namespace \<open>ns2\<close> and the port named \<open>http-from-ns2\<close> in the
  Service's own namespace are different tuples with one key; so are the number 80 and the
  string \<open>80\<close>.\<close>

theorem identityKey_collision:
  "identityKey ''svc1'' ''ns1'' port_http ''ns2'' Ingress =
     identityKey ''svc1'' ''ns1'' port_http_from_ns2 ''ns1'' Ingress
   \<and> identityKey ''svc1'' ''ns1'' port_http ''ns2'' Ingress = Inr ''ns1/ingress-to-svc1-tcp-http-from-ns2''
   \<and> (port_http, ''ns2'') \<noteq> (port_http_from_ns2, ''ns1'')
   \<and> identityKey ''svc1'' ''ns1'' tcp80 ''ns1'' Ingress =
       identityKey ''svc1'' ''ns1'' (tcp80\<lparr>npp_port := Some (StrVal ''80'')\<rparr>) ''ns1'' Ingress
   \<and> tcp80 \<noteq> tcp80\<lparr>npp_port := Some (StrVal ''80'')\<rparr>"
  by (simp add: identityKey_def objectMetaFor_def eval_defs port_http_def port_http_from_ns2_def)

section \<open>Completeness of the desired policies\<close>

lemma addTasksForNamespaces_eq:
  "addTasksForNamespaces svc p policyID pls nss acc =
     (fst acc @ concat (map (tasksForNamespace svc p policyID pls) nss),
      snd acc @ map (key \<circ> task_target) (concat (map (tasksForNamespace svc p policyID pls) nss)))"
  by (induction nss arbitrary: acc) (simp_all add: Let_def tasksForNamespace_def)

lemma addTasksForRelevantNamespacesAndPort_Inr:
  assumes "addTasksForRelevantNamespacesAndPort svc nss p custom acc = Inr acc'"
  shows "\<exists>policyID ts. policyIDFor (meta_name (svc_meta svc)) p = Inr policyID
           \<and> ts = concat (map (tasksForNamespace svc p (if custom \<noteq> [] then policyID @ ''-via-'' @ custom else policyID)
                                  (if custom \<noteq> [] then custom else policyID)) nss)
           \<and> acc' = (fst acc @ ts, snd acc @ map (key \<circ> task_target) ts)"
  using assms
  by (auto simp: addTasksForRelevantNamespacesAndPort_def addTasksForNamespaces_eq split: sum.splits)

lemma addTasksForPorts_extends:
  "addTasksForPorts svc nss custom ps acc = Inr acc' \<Longrightarrow>
     \<exists>ts. acc' = (fst acc @ ts, snd acc @ map (key \<circ> task_target) ts) \<and> (\<forall>t \<in> set ts. \<not> is_delete t)"
proof (induction ps arbitrary: acc)
  case Nil
  then show ?case by (auto intro: exI [of _ "[]"])
next
  case (Cons p ps)
  from Cons.prems obtain acc1 where
    a: "addTasksForRelevantNamespacesAndPort svc nss p custom acc = Inr acc1"
    and b: "addTasksForPorts svc nss custom ps acc1 = Inr acc'"
    by (auto split: sum.splits)
  from addTasksForRelevantNamespacesAndPort_Inr [OF a] obtain ts1 where
    t1: "acc1 = (fst acc @ ts1, snd acc @ map (key \<circ> task_target) ts1)" "\<forall>t \<in> set ts1. \<not> is_delete t"
    by (auto simp: tasksForNamespace_def)
  from Cons.IH [OF b] obtain ts2 where
    t2: "acc' = (fst acc1 @ ts2, snd acc1 @ map (key \<circ> task_target) ts2)" "\<forall>t \<in> set ts2. \<not> is_delete t"
    by blast
  show ?case
    by (rule exI [of _ "ts1 @ ts2"]) (use t1 t2 in auto)
qed

lemma addTasksForPorts_complete:
  "addTasksForPorts svc nss custom ps acc = Inr acc' \<Longrightarrow> p \<in> set ps \<Longrightarrow> n \<in> set nss \<Longrightarrow>
     \<exists>policyID. policyIDFor (meta_name (svc_meta svc)) p = Inr policyID \<and>
       set (tasksForNamespace svc p (if custom \<noteq> [] then policyID @ ''-via-'' @ custom else policyID)
                          (if custom \<noteq> [] then custom else policyID) n) \<subseteq> set (fst acc')"
proof (induction ps arbitrary: acc)
  case Nil
  then show ?case by simp
next
  case (Cons q ps)
  from Cons.prems(1) obtain acc1 where
    a: "addTasksForRelevantNamespacesAndPort svc nss q custom acc = Inr acc1"
    and b: "addTasksForPorts svc nss custom ps acc1 = Inr acc'"
    by (auto split: sum.splits)
  show ?case
  proof (cases "p = q")
    case True
    from addTasksForRelevantNamespacesAndPort_Inr [OF a] obtain policyID where
      pid: "policyIDFor (meta_name (svc_meta svc)) q = Inr policyID"
      and acc1: "fst acc1 = fst acc @ concat (map (tasksForNamespace svc q (if custom \<noteq> [] then policyID @ ''-via-'' @ custom else policyID)
                                  (if custom \<noteq> [] then custom else policyID)) nss)"
      by auto
    from addTasksForPorts_extends [OF b] have "set (fst acc1) \<subseteq> set (fst acc')" by auto
    moreover from acc1 Cons.prems(3)
    have "set (tasksForNamespace svc q (if custom \<noteq> [] then policyID @ ''-via-'' @ custom else policyID)
                          (if custom \<noteq> [] then custom else policyID) n) \<subseteq> set (fst acc1)"
      by auto
    ultimately show ?thesis using pid True by blast
  next
    case False
    with Cons.prems(2) have "p \<in> set ps" by simp
    from Cons.IH [OF b this Cons.prems(3)] show ?thesis .
  qed
qed

lemma reconcileDesiredPolicies_Inr:
  assumes r: "reconcileDesiredPolicies lib svc nss = Inr acc3"
  shows "\<exists>acc1 acc2.
           addTasksForPorts svc nss [] (map servicePortAsPolicyPort (svc_ports svc)) ([], []) = Inr acc1
         \<and> (acc2 = acc1 \<or> (\<exists>c ps. addTasksForPorts svc nss c ps acc1 = Inr acc2))
         \<and> (if map_of (meta_annotations (svc_meta svc)) NetworkingFromWorldToPorts = None
            then acc3 = acc2
            else acc3 = (fst acc2 @ [ReconcileIngressFromWorldPolicy (fromWorldObjectMeta svc)],
                         snd acc2 @ [key (fromWorldObjectMeta svc)]))"
proof -
  let ?c = "lookup_or_empty (meta_annotations (svc_meta svc)) NetworkingFromPolicyPodLabelSelector"
  let ?a = "lookup_or_empty (meta_annotations (svc_meta svc)) NetworkingFromPolicyAllowedPorts"
  obtain acc1 where
    a1: "addTasksForPorts svc nss [] (map servicePortAsPolicyPort (svc_ports svc)) ([], []) = Inr acc1"
    using r by (cases "addTasksForPorts svc nss [] (map servicePortAsPolicyPort (svc_ports svc)) ([], [])")
      (simp_all add: reconcileDesiredPolicies_def)
  define mid where "mid =
    (if ?c \<noteq> [] \<and> ?a \<noteq> []
     then (case unmarshalPorts lib ?a of
             Inl e \<Rightarrow> Inl (Wrapped (''failed unmarshaling '' @ ?a) e)
           | Inr ports \<Rightarrow> addTasksForPorts svc nss ?c ports acc1)
     else Inr acc1)"
  have r': "(case mid of Inl e \<Rightarrow> Inl e
            | Inr acc2 \<Rightarrow>
                (case map_of (meta_annotations (svc_meta svc)) NetworkingFromWorldToPorts of
                   Some _ \<Rightarrow> Inr (fst acc2 @ [ReconcileIngressFromWorldPolicy (fromWorldObjectMeta svc)],
                                 snd acc2 @ [key (fromWorldObjectMeta svc)])
                 | None \<Rightarrow> Inr acc2)) = Inr acc3"
    using r a1 by (simp add: reconcileDesiredPolicies_def Let_def mid_def)
  then obtain acc2 where m: "mid = Inr acc2" by (cases mid) simp_all
  have a2: "acc2 = acc1 \<or> (\<exists>c ps. addTasksForPorts svc nss c ps acc1 = Inr acc2)"
  proof (cases "?c \<noteq> [] \<and> ?a \<noteq> []")
    case True
    with m obtain ports where "addTasksForPorts svc nss ?c ports acc1 = Inr acc2"
      by (cases "unmarshalPorts lib ?a") (simp_all add: mid_def)
    then show ?thesis by blast
  next
    case False
    with m show ?thesis by (simp add: mid_def)
  qed
  from r' m have a3: "if map_of (meta_annotations (svc_meta svc)) NetworkingFromWorldToPorts = None
      then acc3 = acc2
      else acc3 = (fst acc2 @ [ReconcileIngressFromWorldPolicy (fromWorldObjectMeta svc)],
                   snd acc2 @ [key (fromWorldObjectMeta svc)])"
    by (cases "map_of (meta_annotations (svc_meta svc)) NetworkingFromWorldToPorts") auto
  from a1 a2 a3 show ?thesis by blast
qed

lemma reconcileDesiredPolicies_extends:
  assumes "reconcileDesiredPolicies lib svc nss = Inr (tasks, keys)"
  shows "keys = map (key \<circ> task_target) tasks \<and> (\<forall>t \<in> set tasks. \<not> is_delete t)"
proof -
  from reconcileDesiredPolicies_Inr [OF assms] obtain acc1 acc2 where
    a1: "addTasksForPorts svc nss [] (map servicePortAsPolicyPort (svc_ports svc)) ([], []) = Inr acc1"
    and a2: "acc2 = acc1 \<or> (\<exists>c ps. addTasksForPorts svc nss c ps acc1 = Inr acc2)"
    and a3: "(tasks, keys) = acc2 \<or>
             (tasks, keys) = (fst acc2 @ [ReconcileIngressFromWorldPolicy (fromWorldObjectMeta svc)],
                              snd acc2 @ [key (fromWorldObjectMeta svc)])"
    by (metis (full_types))
  from addTasksForPorts_extends [OF a1] have p1: "snd acc1 = map (key \<circ> task_target) (fst acc1)"
    "\<forall>t \<in> set (fst acc1). \<not> is_delete t" by auto
  from a2 have p2: "snd acc2 = map (key \<circ> task_target) (fst acc2) \<and> (\<forall>t \<in> set (fst acc2). \<not> is_delete t)"
  proof
    assume "\<exists>c ps. addTasksForPorts svc nss c ps acc1 = Inr acc2"
    then obtain c ps where "addTasksForPorts svc nss c ps acc1 = Inr acc2" by blast
    from addTasksForPorts_extends [OF this] p1 show ?thesis by auto
  next
    assume "acc2 = acc1"
    with p1 show ?thesis by simp
  qed
  from a3 p2 show ?thesis by auto
qed

lemma reconcileDesiredPolicies_complete:
  assumes r: "reconcileDesiredPolicies lib svc nss = Inr (tasks, keys)"
    and sp: "sp \<in> set (svc_ports svc)" and n: "n \<in> set nss"
  shows "\<exists>policyID. policyIDFor (meta_name (svc_meta svc)) (servicePortAsPolicyPort sp) = Inr policyID \<and>
           set (tasksForNamespace svc (servicePortAsPolicyPort sp) policyID policyID n) \<subseteq> set tasks"
proof -
  from reconcileDesiredPolicies_Inr [OF r] obtain acc1 acc2 where
    a1: "addTasksForPorts svc nss [] (map servicePortAsPolicyPort (svc_ports svc)) ([], []) = Inr acc1"
    and a2: "acc2 = acc1 \<or> (\<exists>c ps. addTasksForPorts svc nss c ps acc1 = Inr acc2)"
    and a3: "(tasks, keys) = acc2 \<or>
             (tasks, keys) = (fst acc2 @ [ReconcileIngressFromWorldPolicy (fromWorldObjectMeta svc)],
                              snd acc2 @ [key (fromWorldObjectMeta svc)])"
    by (metis (full_types))
  from sp have "servicePortAsPolicyPort sp \<in> set (map servicePortAsPolicyPort (svc_ports svc))" by simp
  from addTasksForPorts_complete [OF a1 this n] obtain policyID where
    pid: "policyIDFor (meta_name (svc_meta svc)) (servicePortAsPolicyPort sp) = Inr policyID"
    and sub: "set (tasksForNamespace svc (servicePortAsPolicyPort sp) policyID policyID n) \<subseteq> set (fst acc1)"
    by auto
  from a2 have "set (fst acc1) \<subseteq> set (fst acc2)"
  proof
    assume "\<exists>c ps. addTasksForPorts svc nss c ps acc1 = Inr acc2"
    then obtain c ps where "addTasksForPorts svc nss c ps acc1 = Inr acc2" by blast
    from addTasksForPorts_extends [OF this] show ?thesis by auto
  qed simp
  moreover from a3 have "set (fst acc2) \<subseteq> set tasks" by auto
  ultimately show ?thesis using pid sub by blast
qed


lemma permutes_two:
  assumes "permutes sched"
  shows "sched [a, b] = [a, b] \<or> sched [a, b] = [b, a]"
proof -
  from assms have m: "mset (sched [a, b]) = {#a, b#}" by (simp add: permutes_def)
  then have "length (sched [a, b]) = 2" using mset_eq_length [of "sched [a, b]" "[a, b]"] by simp
  then obtain x y where xy: "sched [a, b] = [x, y]"
    by (cases "sched [a, b]"; cases "tl (sched [a, b])") auto
  with m have "set [x, y] = set [a, b]" using mset_eq_setD [of "[x, y]" "[a, b]"] by simp
  then have "(x = a \<and> y = b) \<or> (x = b \<and> y = a)"
    by (simp add: doubleton_eq_iff)
  with xy show ?thesis by auto
qed

lemma scenarioA_desired:
  "reconcileDesiredPolicies lib svc1_final [''ns1''] =
     Inr ([taskA_ingress, taskA_egress], [''ns1/ingress-to-svc1-tcp-80'', ''ns1/egress-to-svc1-tcp-80''])"
  by (simp add: eval_defs svc1_final_def taskA_ingress_def taskA_egress_def LabelNetworkPolicyAllowed_def)

lemma scenarioA_plan:
  "Reconcile global_reconciler lib sched cluster1 ''ns1'' ''svc1'' =
     (case Parallel sched lib svc1_final [taskA_ingress, taskA_egress] cluster1_final of
        (Some err, c2) \<Rightarrow> (Inl err, c2) | (None, c2) \<Rightarrow> (Inr Result_empty, c2))"
proof -
  have g: "client_Get_service cluster1 ''ns1'' ''svc1'' = Inr svc1"
    by (simp add: eval_defs)
  have l: "client_List_policies cluster1 ''svc1'' ''ns1'' = Inr []"
    by (simp add: eval_defs)
  have h: "namespaceIsHandled global_reconciler cluster1 ''ns1'' = Inr True"
    by (simp add: eval_defs)
  have s: "\<not> cleanup_state svc1 True" "\<not> ContainsFinalizer (svc_meta svc1) finalizerName"
    "meta_name (svc_meta svc1) = ''svc1''" "meta_namespace (svc_meta svc1) = ''ns1''"
    by (simp_all add: eval_defs)
  have a: "AddFinalizers cluster1 svc1 finalizerName = Inr (svc1_final, cluster1_final)"
    by (simp add: eval_defs svc1_final_def cluster1_final_def)
  have f: "fetchRelevantNamespaceNames lib cluster1_final svc1_final = Inr [''ns1'']"
    by (simp add: eval_defs svc1_final_def cluster1_final_def)
  have d: "deleteStalePolicies [] [''ns1/ingress-to-svc1-tcp-80'', ''ns1/egress-to-svc1-tcp-80''] = []"
    by (simp add: deleteStalePolicies_def)
  show ?thesis
    unfolding Reconcile_def by (simp add: g l h s a f d scenarioA_desired)
qed

lemma scenarioA_run_1:
  "run_tasks lib svc1_final [taskA_ingress, taskA_egress] cluster1_final =
     ([], cluster1_final\<lparr>cl_policies := [scenarioA_ingress, scenarioA_egress]\<rparr>)"
  by (simp add: eval_defs svc1_final_def cluster1_final_def taskA_ingress_def taskA_egress_def
      scenarioA_ingress_def scenarioA_egress_def setBackReferences_def SetMetaDataLabel_def
      SetMetaDataAnnotation_def NetworkingServiceName_def NetworkingServiceNamespace_def
      GardenerDescription_def formatMap_def ObjectKeyFromObject_def selectorOf_def MatchLabels_def
      ingressNamespaceSelectorFor_def egressNamespaceSelectorFor_def)

lemma scenarioA_run_2:
  "run_tasks lib svc1_final [taskA_egress, taskA_ingress] cluster1_final =
     ([], cluster1_final\<lparr>cl_policies := [scenarioA_egress, scenarioA_ingress]\<rparr>)"
  by (simp add: eval_defs svc1_final_def cluster1_final_def taskA_ingress_def taskA_egress_def
      scenarioA_ingress_def scenarioA_egress_def setBackReferences_def SetMetaDataLabel_def
      SetMetaDataAnnotation_def NetworkingServiceName_def NetworkingServiceNamespace_def
      GardenerDescription_def formatMap_def ObjectKeyFromObject_def selectorOf_def MatchLabels_def
      ingressNamespaceSelectorFor_def egressNamespaceSelectorFor_def)

lemma scenarioA_result:
  assumes "permutes sched"
  shows "fst (Reconcile global_reconciler lib sched cluster1 ''ns1'' ''svc1'') = Inr Result_empty
       \<and> set (cl_policies (snd (Reconcile global_reconciler lib sched cluster1 ''ns1'' ''svc1''))) =
           {scenarioA_ingress, scenarioA_egress}
       \<and> length (cl_policies (snd (Reconcile global_reconciler lib sched cluster1 ''ns1'' ''svc1''))) = 2"
  using permutes_two [OF assms, of taskA_ingress taskA_egress]
  by (auto simp: scenarioA_plan Parallel_def scenarioA_run_1 scenarioA_run_2 simp del: run_tasks.simps)


text \<open>
  C4. When the derivation succeeds, every port of the Service and every relevant namespace
  have their ingress and their egress task among the tasks and the keys of both among the
  desired keys. For scenario A (Service \<open>svc1\<close> in \<open>ns1\<close>, selector \<open>app: foo\<close>, one port
  TCP with target port 80, no annotations, empty store, every namespace handled) the
  reconciliation succeeds under every schedule and leaves exactly the two policies
  \<open>ingress-to-svc1-tcp-80\<close> and \<open>egress-to-svc1-tcp-80\<close> in \<open>ns1\<close>, whose peer label is
  \<open>networking.resources.gardener.cloud/to-svc1-tcp-80 = allowed\<close>.
\<close>

theorem desired_policies_complete:
  "(reconcileDesiredPolicies lib svc nss = Inr (tasks, keys) \<longrightarrow>
    sp \<in> set (svc_ports svc) \<longrightarrow> n \<in> set nss \<longrightarrow>
      (\<exists>policyID.
          policyIDFor (meta_name (svc_meta svc)) (servicePortAsPolicyPort sp) = Inr policyID
        \<and> set (tasksForNamespace svc (servicePortAsPolicyPort sp) policyID policyID n) \<subseteq> set tasks
        \<and> key (ingressPolicyObjectMetaFor policyID (meta_namespace (svc_meta svc)) n) \<in> set keys
        \<and> key (egressPolicyObjectMetaFor policyID (meta_namespace (svc_meta svc)) n) \<in> set keys))
   \<and> (permutes sched \<longrightarrow>
        fst (Reconcile global_reconciler lib sched cluster1 ''ns1'' ''svc1'') = Inr Result_empty
      \<and> set (cl_policies (snd (Reconcile global_reconciler lib sched cluster1 ''ns1'' ''svc1''))) =
          {scenarioA_ingress, scenarioA_egress}
      \<and> length (cl_policies (snd (Reconcile global_reconciler lib sched cluster1 ''ns1'' ''svc1''))) = 2)
   \<and> key (np_meta scenarioA_ingress) = ''ns1/ingress-to-svc1-tcp-80''
   \<and> key (np_meta scenarioA_egress) = ''ns1/egress-to-svc1-tcp-80''
   \<and> map peer_podSelector (concat (map rule_peers (spec_ingress (np_spec scenarioA_ingress)))) =
       [Some (MatchLabels [(''networking.resources.gardener.cloud/to-svc1-tcp-80'', ''allowed'')])]
   \<and> spec_podSelector (np_spec scenarioA_egress) =
       MatchLabels [(''networking.resources.gardener.cloud/to-svc1-tcp-80'', ''allowed'')]"
proof -
  have general: "\<exists>policyID.
          policyIDFor (meta_name (svc_meta svc)) (servicePortAsPolicyPort sp) = Inr policyID
        \<and> set (tasksForNamespace svc (servicePortAsPolicyPort sp) policyID policyID n) \<subseteq> set tasks
        \<and> key (ingressPolicyObjectMetaFor policyID (meta_namespace (svc_meta svc)) n) \<in> set keys
        \<and> key (egressPolicyObjectMetaFor policyID (meta_namespace (svc_meta svc)) n) \<in> set keys"
    if r: "reconcileDesiredPolicies lib svc nss = Inr (tasks, keys)"
      and sp: "sp \<in> set (svc_ports svc)" and n: "n \<in> set nss"
  proof -
    from reconcileDesiredPolicies_complete [OF r sp n] obtain policyID where
      pid: "policyIDFor (meta_name (svc_meta svc)) (servicePortAsPolicyPort sp) = Inr policyID"
      and sub: "set (tasksForNamespace svc (servicePortAsPolicyPort sp) policyID policyID n) \<subseteq> set tasks"
      by blast
    from reconcileDesiredPolicies_extends [OF r] have "keys = map (key \<circ> task_target) tasks" by simp
    with sub have
      "key (ingressPolicyObjectMetaFor policyID (meta_namespace (svc_meta svc)) n) \<in> set keys"
      "key (egressPolicyObjectMetaFor policyID (meta_namespace (svc_meta svc)) n) \<in> set keys"
      by (force simp: tasksForNamespace_def)+
    with pid sub show ?thesis by blast
  qed
  have facts: "key (np_meta scenarioA_ingress) = ''ns1/ingress-to-svc1-tcp-80''"
    "key (np_meta scenarioA_egress) = ''ns1/egress-to-svc1-tcp-80''"
    "map peer_podSelector (concat (map rule_peers (spec_ingress (np_spec scenarioA_ingress)))) =
       [Some (MatchLabels [(''networking.resources.gardener.cloud/to-svc1-tcp-80'', ''allowed'')])]"
    "spec_podSelector (np_spec scenarioA_egress) =
       MatchLabels [(''networking.resources.gardener.cloud/to-svc1-tcp-80'', ''allowed'')]"
    by (simp_all add: scenarioA_ingress_def scenarioA_egress_def key_def)
  from general scenarioA_result [of sched lib] facts show ?thesis by blast
qed

theorem desired_policies_complete_witness:
  "reconcileDesiredPolicies lib0 svc1 [''ns1''] =
     Inr ([taskA_ingress, taskA_egress], [''ns1/ingress-to-svc1-tcp-80'', ''ns1/egress-to-svc1-tcp-80''])
   \<and> ''ns1/ingress-to-svc1-tcp-80'' \<in> set [''ns1/ingress-to-svc1-tcp-80'', ''ns1/egress-to-svc1-tcp-80'']
   \<and> ''ns1/egress-to-svc1-tcp-80'' \<in> set [''ns1/ingress-to-svc1-tcp-80'', ''ns1/egress-to-svc1-tcp-80'']
   \<and> permutes in_order
   \<and> fst (Reconcile global_reconciler lib0 in_order cluster1 ''ns1'' ''svc1'') = Inr Result_empty
   \<and> set (cl_policies (snd (Reconcile global_reconciler lib0 in_order cluster1 ''ns1'' ''svc1''))) =
       {scenarioA_ingress, scenarioA_egress}"
proof -
  have d: "reconcileDesiredPolicies lib0 svc1 [''ns1''] =
     Inr ([taskA_ingress, taskA_egress], [''ns1/ingress-to-svc1-tcp-80'', ''ns1/egress-to-svc1-tcp-80''])"
    by (simp add: eval_defs taskA_ingress_def taskA_egress_def LabelNetworkPolicyAllowed_def)
  have p: "permutes in_order" by (simp add: permutes_def in_order_def)
  from desired_policies_complete [of lib0 svc1 "[''ns1'']" "[taskA_ingress, taskA_egress]"
      "[''ns1/ingress-to-svc1-tcp-80'', ''ns1/egress-to-svc1-tcp-80'']"
      "\<lparr>sp_name = ''http'', sp_protocol = ''TCP'', sp_port = 80, sp_targetPort = IntVal 80\<rparr>"
      "''ns1''" in_order] d p
  show ?thesis by (simp add: svc1_def)
qed

section \<open>The namespace gate and the relevant namespaces\<close>

lemma matchesAny_iff: "matchesAny sels ls \<longleftrightarrow> (\<exists>sel \<in> set sels. sel ls)"
  by (induction sels) auto

text \<open>
  C7. When the namespace can be fetched, the gate answers true if the reconciler has no
  selector, and otherwise exactly when one of its selectors matches the labels of the
  namespace. When the namespace cannot be fetched, the gate returns the error, wrapped;
  a namespace that is not in the store is such a case.
\<close>

theorem namespaceIsHandled_gate:
  "(client_Get_namespace c n = Inr ns \<longrightarrow>
      namespaceIsHandled r c n = Inr (r_selectors r = [] \<or> (\<exists>sel \<in> set (r_selectors r). sel (meta_labels ns))))
   \<and> (client_Get_namespace c n = Inl err \<longrightarrow>
      namespaceIsHandled r c n = Inl (Wrapped (''failed to get namespace '' @ n) err))
   \<and> (find (\<lambda>m. meta_name m = n) (cl_namespaces c) = None \<longrightarrow> (\<exists>e. namespaceIsHandled r c n = Inl e))"
  by (auto simp: namespaceIsHandled_def matchesAny_iff client_Get_namespace_def split: option.splits)

theorem namespaceIsHandled_gate_witness:
  "namespaceIsHandled global_reconciler clusterC ''ns1'' = Inr True
   \<and> namespaceIsHandled selecting_reconciler clusterC ''ns2'' = Inr True
   \<and> namespaceIsHandled selecting_reconciler clusterC ''ns1'' = Inr False
   \<and> namespaceIsHandled selecting_reconciler clusterC ''gone'' =
       Inl (Wrapped ''failed to get namespace gone'' (NotFound ''gone''))"
proof -
  have g: "client_Get_namespace clusterC ''ns1'' = Inr ns1" "client_Get_namespace clusterC ''ns2'' = Inr ns2"
    "client_Get_namespace clusterC ''gone'' = Inl (NotFound ''gone'')"
    by (simp_all add: client_Get_namespace_def clusterC_def no_faults_def ns1_def ns2_def ns3_def ObjectMeta_def)
  from namespaceIsHandled_gate [of clusterC "''ns1''" ns1 global_reconciler]
    namespaceIsHandled_gate [of clusterC "''ns2''" ns2 selecting_reconciler]
    namespaceIsHandled_gate [of clusterC "''ns1''" ns1 selecting_reconciler]
    namespaceIsHandled_gate [of clusterC "''gone''" _ selecting_reconciler "NotFound ''gone''"] g
  show ?thesis
    by (simp add: global_reconciler_def selecting_reconciler_def ns1_def ns2_def ObjectMeta_def)
qed

lemma set_Insert_set: "set (set_Insert names n) = insert n (set names)"
  by (auto simp: set_Insert_def)

lemma insertLive_set:
  "set (insertLive items names) =
     set names \<union> meta_name ` {ns \<in> set items. meta_deletionTimestamp ns = None}"
proof (induction items arbitrary: names)
  case Nil
  show ?case by simp
next
  case (Cons a items)
  show ?case
  proof (cases "meta_deletionTimestamp a = None")
    case True
    have "{ns \<in> set (a # items). meta_deletionTimestamp ns = None} =
          insert a {ns \<in> set items. meta_deletionTimestamp ns = None}"
      using True by auto
    then show ?thesis using True by (simp add: Cons.IH set_Insert_set)
  next
    case False
    have "{ns \<in> set (a # items). meta_deletionTimestamp ns = None} =
          {ns \<in> set items. meta_deletionTimestamp ns = None}"
      using False by auto
    moreover from False obtain y where "meta_deletionTimestamp a = Some y" by auto
    ultimately show ?thesis by (simp add: Cons.IH)
  qed
qed

lemma insertLive_cases:
  "n \<in> set (insertLive items names) \<Longrightarrow>
     n \<in> set names \<or> (\<exists>ns \<in> set items. meta_name ns = n \<and> meta_deletionTimestamp ns = None)"
  unfolding insertLive_set by blast

lemma insertLive_mono: "set names \<subseteq> set (insertLive items names)"
  unfolding insertLive_set by blast

lemma relevantLoop_sound:
  "relevantLoop lib c sels names = Inr out \<Longrightarrow>
     set names \<subseteq> set out \<and>
     (\<forall>n \<in> set out. n \<in> set names \<or>
        (\<exists>ns \<in> set (cl_namespaces c). meta_name ns = n \<and> meta_deletionTimestamp ns = None))"
proof (induction sels arbitrary: names)
  case Nil
  then show ?case by simp
next
  case (Cons s sels)
  from Cons.prems obtain sel where sel: "LabelSelectorAsSelector lib s = Inr sel"
    by (cases "LabelSelectorAsSelector lib s") simp_all
  with Cons.prems obtain items where
    l: "client_List_namespaces c sel = Inr items"
    by (cases "client_List_namespaces c sel") simp_all
  with sel Cons.prems have r: "relevantLoop lib c sels (insertLive items names) = Inr out"
    by simp
  from l have sub: "set items \<subseteq> set (cl_namespaces c)"
    by (cases "cl_faults c ListNamespaces") (auto simp: client_List_namespaces_def)
  from Cons.IH [OF r] have
    a: "set (insertLive items names) \<subseteq> set out"
    and b: "\<And>n. n \<in> set out \<Longrightarrow> n \<in> set (insertLive items names) \<or>
        (\<exists>ns \<in> set (cl_namespaces c). meta_name ns = n \<and> meta_deletionTimestamp ns = None)"
    by blast+
  have "set names \<subseteq> set out" using a insertLive_mono [of names items] by blast
  moreover have "n \<in> set names \<or>
        (\<exists>ns \<in> set (cl_namespaces c). meta_name ns = n \<and> meta_deletionTimestamp ns = None)"
    if "n \<in> set out" for n
    using b [OF that] insertLive_cases [of n items names] sub by blast
  ultimately show ?case by blast
qed

text \<open>
  C3, as amended. The resolver's result always holds the Service's own namespace, whatever
  its state. Every other name in it is the name of a stored namespace without deletion
  time stamp; so, names of namespaces being unique, a namespace that is being deleted and
  is not the Service's own is never in the result.
\<close>

theorem relevant_namespaces_live:
  assumes "fetchRelevantNamespaceNames lib c svc = Inr names"
  shows "meta_namespace (svc_meta svc) \<in> set names
       \<and> (\<forall>n \<in> set names. n \<noteq> meta_namespace (svc_meta svc) \<longrightarrow>
            (\<exists>ns \<in> set (cl_namespaces c). meta_name ns = n \<and> meta_deletionTimestamp ns = None))
       \<and> (distinct (map meta_name (cl_namespaces c)) \<longrightarrow>
            (\<forall>ns \<in> set (cl_namespaces c).
               meta_deletionTimestamp ns \<noteq> None \<longrightarrow> meta_name ns \<noteq> meta_namespace (svc_meta svc) \<longrightarrow>
               meta_name ns \<notin> set names))"
proof -
  from assms obtain sels where
    r: "relevantLoop lib c sels [meta_namespace (svc_meta svc)] = Inr names"
    by (auto simp: fetchRelevantNamespaceNames_def split: sum.splits option.splits)
  from relevantLoop_sound [OF r] have
    own: "meta_namespace (svc_meta svc) \<in> set names"
    and live: "\<forall>n \<in> set names. n \<noteq> meta_namespace (svc_meta svc) \<longrightarrow>
            (\<exists>ns \<in> set (cl_namespaces c). meta_name ns = n \<and> meta_deletionTimestamp ns = None)"
    by auto
  have "meta_name ns \<notin> set names"
    if d: "distinct (map meta_name (cl_namespaces c))" and ns: "ns \<in> set (cl_namespaces c)"
      and t: "meta_deletionTimestamp ns \<noteq> None" and o: "meta_name ns \<noteq> meta_namespace (svc_meta svc)" for ns
  proof
    assume "meta_name ns \<in> set names"
    with live o obtain ns' where ns': "ns' \<in> set (cl_namespaces c)" "meta_name ns' = meta_name ns"
      "meta_deletionTimestamp ns' = None" by blast
    from d ns ns'(1,2) have "ns' = ns" by (simp add: distinct_map inj_on_def)
    with t ns'(3) show False by simp
  qed
  with own live show ?thesis by blast
qed

lemmas eval2_defs = eval_defs client_List_namespaces_def set_Insert_def clusterC_def svcC_def ns2_def ns3_def MatchLabels_def

theorem relevant_namespaces_live_witness:
  "fetchRelevantNamespaceNames lib0 clusterC svcC = Inr [''ns1'', ''ns2'']
   \<and> distinct (map meta_name (cl_namespaces clusterC))
   \<and> ns3 \<in> set (cl_namespaces clusterC) \<and> meta_deletionTimestamp ns3 \<noteq> None
   \<and> meta_name ns3 \<notin> set [''ns1'', ''ns2'']"
proof -
  have f: "fetchRelevantNamespaceNames lib0 clusterC svcC = Inr [''ns1'', ''ns2'']"
    by (simp add: eval2_defs)
  have d: "distinct (map meta_name (cl_namespaces clusterC))" "ns3 \<in> set (cl_namespaces clusterC)"
    "meta_deletionTimestamp ns3 \<noteq> None" "meta_name ns3 \<noteq> meta_namespace (svc_meta svcC)"
    by (simp_all add: eval2_defs)
  from relevant_namespaces_live [OF f] d have "meta_name ns3 \<notin> set [''ns1'', ''ns2'']" by blast
  with f d show ?thesis by simp
qed


lemmas run_defs = eval_defs scenarioA_ingress_def scenarioA_egress_def setBackReferences_def
  SetMetaDataLabel_def SetMetaDataAnnotation_def NetworkingServiceName_def NetworkingServiceNamespace_def
  GardenerDescription_def formatMap_def ObjectKeyFromObject_def selectorOf_def MatchLabels_def
  ingressNamespaceSelectorFor_def egressNamespaceSelectorFor_def LabelNetworkPolicyAllowed_def

lemma terminating_run:
  "run_tasks lib svc1_final [taskA_ingress, taskA_egress]
     (cluster_terminating\<lparr>cl_services := [svc1_final]\<rparr>) =
   ([], cluster_terminating\<lparr>cl_services := [svc1_final],
                             cl_policies := [scenarioA_ingress, scenarioA_egress]\<rparr>)"
  by (simp add: run_defs svc1_final_def cluster_terminating_def taskA_ingress_def taskA_egress_def)

lemma terminating_plan:
  "Reconcile global_reconciler lib0 in_order cluster_terminating ''ns1'' ''svc1'' =
     (case Parallel in_order lib0 svc1_final [taskA_ingress, taskA_egress]
             (cluster_terminating\<lparr>cl_services := [svc1_final]\<rparr>) of
        (Some err, c2) \<Rightarrow> (Inl err, c2) | (None, c2) \<Rightarrow> (Inr Result_empty, c2))"
proof -
  have g: "client_Get_service cluster_terminating ''ns1'' ''svc1'' = Inr svc1"
    by (simp add: eval_defs cluster_terminating_def)
  have l: "client_List_policies cluster_terminating ''svc1'' ''ns1'' = Inr []"
    by (simp add: eval_defs cluster_terminating_def)
  have h: "namespaceIsHandled global_reconciler cluster_terminating ''ns1'' = Inr True"
    by (simp add: eval_defs cluster_terminating_def ns1_terminating_def)
  have s: "\<not> cleanup_state svc1 True" "\<not> ContainsFinalizer (svc_meta svc1) finalizerName"
    "meta_name (svc_meta svc1) = ''svc1''" "meta_namespace (svc_meta svc1) = ''ns1''"
    by (simp_all add: eval_defs)
  have a: "AddFinalizers cluster_terminating svc1 finalizerName =
             Inr (svc1_final, cluster_terminating\<lparr>cl_services := [svc1_final]\<rparr>)"
    by (simp add: eval_defs svc1_final_def cluster_terminating_def)
  have f: "fetchRelevantNamespaceNames lib0 (cluster_terminating\<lparr>cl_services := [svc1_final]\<rparr>) svc1_final
             = Inr [''ns1'']"
    by (simp add: eval_defs svc1_final_def)
  have d: "deleteStalePolicies [] [''ns1/ingress-to-svc1-tcp-80'', ''ns1/egress-to-svc1-tcp-80''] = []"
    by (simp add: deleteStalePolicies_def)
  show ?thesis
    unfolding Reconcile_def by (simp add: g l h s a f d scenarioA_desired)
qed


text \<open>C3 as stated fails for the Service's own namespace: with \<open>ns1\<close> being deleted, the
  resolver still returns \<open>ns1\<close>, and the reconciliation creates both policies in it.\<close>

theorem relevant_namespaces_terminating_own:
  "fetchRelevantNamespaceNames lib0 cluster_terminating svc1 = Inr [''ns1'']
   \<and> cl_namespaces cluster_terminating = [ns1_terminating]
   \<and> meta_name ns1_terminating = ''ns1''
   \<and> meta_deletionTimestamp ns1_terminating = Some 7
   \<and> Reconcile global_reconciler lib0 in_order cluster_terminating ''ns1'' ''svc1'' =
       (Inr Result_empty,
        cluster_terminating\<lparr>cl_services := [svc1_final],
                             cl_policies := [scenarioA_ingress, scenarioA_egress]\<rparr>)
   \<and> meta_namespace (np_meta scenarioA_ingress) = ''ns1''
   \<and> meta_namespace (np_meta scenarioA_egress) = ''ns1''"
proof -
  have f: "fetchRelevantNamespaceNames lib0 cluster_terminating svc1 = Inr [''ns1'']"
    by (simp add: eval_defs cluster_terminating_def)
  have n: "cl_namespaces cluster_terminating = [ns1_terminating]" "meta_name ns1_terminating = ''ns1''"
    "meta_deletionTimestamp ns1_terminating = Some 7"
    "meta_namespace (np_meta scenarioA_ingress) = ''ns1''" "meta_namespace (np_meta scenarioA_egress) = ''ns1''"
    by (simp_all add: cluster_terminating_def ns1_terminating_def ns1_def ObjectMeta_def
        scenarioA_ingress_def scenarioA_egress_def)
  have "Reconcile global_reconciler lib0 in_order cluster_terminating ''ns1'' ''svc1'' =
       (Inr Result_empty,
        cluster_terminating\<lparr>cl_services := [svc1_final],
                             cl_policies := [scenarioA_ingress, scenarioA_egress]\<rparr>)"
    by (subst terminating_plan) (simp add: Parallel_def in_order_def terminating_run del: run_tasks.simps)
  with f n show ?thesis by simp
qed


section \<open>The Progressing condition waits for Applied\<close>

lemma applied_pending_iff:
  "applied_pending mr \<longleftrightarrow>
     (GetCondition (mr_conditions mr) ResourcesApplied = None \<or>
      (\<exists>a. GetCondition (mr_conditions mr) ResourcesApplied = Some a \<and>
           (cond_status a = ConditionFalse \<or> cond_status a = ConditionProgressing)))"
  by (cases "GetCondition (mr_conditions mr) ResourcesApplied") (auto simp: applied_pending_def)

text \<open>
  C8, as amended. For a ManagedResource that is found and whose Applied condition is
  missing, False or Progressing, the reconciliation leaves the store as it is: the
  Progressing condition is neither evaluated nor written. It returns the empty result,
  which asks for no requeue, when the ManagedResource is ignored, or is not of the
  reconciler's class, or is being deleted; in every other case it asks to be run again
  after the sync period.
\<close>

theorem progressing_deferred:
  assumes get: "client_Get_managedResource st ns n = Inr mr"
    and pending: "GetCondition (mr_conditions mr) ResourcesApplied = None \<or>
      (\<exists>a. GetCondition (mr_conditions mr) ResourcesApplied = Some a \<and>
           (cond_status a = ConditionFalse \<or> cond_status a = ConditionProgressing))"
  shows "progressing_Reconcile r st ns n =
           (Inr (if pr_isIgnored r mr \<or> \<not> pr_responsible r mr \<or>
                    meta_deletionTimestamp (mr_meta mr) \<noteq> None
                 then Result_empty
                 else RequeueAfter (pr_syncPeriod r)),
            st)
       \<and> res_requeue Result_empty = False \<and> res_requeueAfter Result_empty = 0
       \<and> res_requeueAfter (RequeueAfter (pr_syncPeriod r)) = pr_syncPeriod r"
proof -
  from pending have "applied_pending mr" by (simp add: applied_pending_iff)
  with get show ?thesis
    by (simp add: progressing_Reconcile_def Result_empty_def RequeueAfter_def)
qed

lemmas mr_defs = progressing_Reconcile_def client_Get_managedResource_def mr_store_of_def mr1_def
  mr1_ignored_def mr1_applied_def pr0_def same_object_def ObjectMeta_def applied_pending_def GetCondition_def
  ResourcesApplied_def lookup_or_empty_def RequeueAfter_def Result_empty_def mr1_deleting_def
  pr_other_class_def

text \<open>The theorem at the unapplied ManagedResource \<open>mr1\<close>: requeued by its own reconciler;
  returned with the empty result when it is ignored, when the reconciler is of another
  class, and when it is being deleted. The store is the same afterwards in all four runs.\<close>

theorem progressing_deferred_witness:
  "client_Get_managedResource (mr_store_of mr1) ''ns1'' ''mr1'' = Inr mr1
   \<and> GetCondition (mr_conditions mr1) ResourcesApplied =
       Some \<lparr>cond_type = ''ResourcesApplied'', cond_status = ConditionFalse,
             cond_reason = ''ApplyFailed'', cond_message = []\<rparr>
   \<and> progressing_Reconcile pr0 (mr_store_of mr1) ''ns1'' ''mr1'' =
       (Inr (RequeueAfter 60000000000), mr_store_of mr1)
   \<and> progressing_Reconcile pr0 (mr_store_of mr1_ignored) ''ns1'' ''mr1'' =
       (Inr Result_empty, mr_store_of mr1_ignored)
   \<and> progressing_Reconcile pr_other_class (mr_store_of mr1) ''ns1'' ''mr1'' =
       (Inr Result_empty, mr_store_of mr1)
   \<and> progressing_Reconcile pr0 (mr_store_of mr1_deleting) ''ns1'' ''mr1'' =
       (Inr Result_empty, mr_store_of mr1_deleting)"
proof -
  have g: "client_Get_managedResource (mr_store_of mr1) ''ns1'' ''mr1'' = Inr mr1"
    "client_Get_managedResource (mr_store_of mr1_ignored) ''ns1'' ''mr1'' = Inr mr1_ignored"
    "client_Get_managedResource (mr_store_of mr1_deleting) ''ns1'' ''mr1'' = Inr mr1_deleting"
    by (simp_all add: mr_defs)
  have c: "GetCondition (mr_conditions mr1) ResourcesApplied =
       Some \<lparr>cond_type = ''ResourcesApplied'', cond_status = ConditionFalse,
             cond_reason = ''ApplyFailed'', cond_message = []\<rparr>"
    "GetCondition (mr_conditions mr1_ignored) ResourcesApplied =
       Some \<lparr>cond_type = ''ResourcesApplied'', cond_status = ConditionFalse,
             cond_reason = ''ApplyFailed'', cond_message = []\<rparr>"
    "GetCondition (mr_conditions mr1_deleting) ResourcesApplied =
       Some \<lparr>cond_type = ''ResourcesApplied'', cond_status = ConditionFalse,
             cond_reason = ''ApplyFailed'', cond_message = []\<rparr>"
    by (simp_all add: mr_defs)
  have h: "\<not> pr_isIgnored pr0 mr1" "pr_responsible pr0 mr1" "meta_deletionTimestamp (mr_meta mr1) = None"
    "pr_syncPeriod pr0 = 60000000000" "pr_isIgnored pr0 mr1_ignored" "\<not> pr_responsible pr_other_class mr1"
    "meta_deletionTimestamp (mr_meta mr1_deleting) = Some 9"
    by (simp_all add: mr_defs)
  have "progressing_Reconcile pr0 (mr_store_of mr1) ''ns1'' ''mr1'' =
       (Inr (RequeueAfter 60000000000), mr_store_of mr1)"
    using progressing_deferred [OF g(1), of pr0] c(1) h by simp
  moreover have "progressing_Reconcile pr0 (mr_store_of mr1_ignored) ''ns1'' ''mr1'' =
       (Inr Result_empty, mr_store_of mr1_ignored)"
    using progressing_deferred [OF g(2), of pr0] c(2) h by simp
  moreover have "progressing_Reconcile pr_other_class (mr_store_of mr1) ''ns1'' ''mr1'' =
       (Inr Result_empty, mr_store_of mr1)"
    using progressing_deferred [OF g(1), of pr_other_class] c(1) h by simp
  moreover have "progressing_Reconcile pr0 (mr_store_of mr1_deleting) ''ns1'' ''mr1'' =
       (Inr Result_empty, mr_store_of mr1_deleting)"
    using progressing_deferred [OF g(3), of pr0] c(3) h by simp
  ultimately show ?thesis using g(1) c(1) by simp
qed

text \<open>C8 as stated fails in its requeue clause: a ManagedResource whose Applied condition is
  False is left untouched but is not requeued when it is ignored; the same holds when the
  reconciler is of another class and when the ManagedResource is being deleted.\<close>

theorem progressing_ignored_not_requeued:
  "client_Get_managedResource (mr_store_of mr1_ignored) ''ns1'' ''mr1'' = Inr mr1_ignored
   \<and> applied_pending mr1_ignored
   \<and> pr_syncPeriod pr0 = 60000000000
   \<and> progressing_Reconcile pr0 (mr_store_of mr1_ignored) ''ns1'' ''mr1'' =
       (Inr \<lparr>res_requeue = False, res_requeueAfter = 0\<rparr>, mr_store_of mr1_ignored)
   \<and> applied_pending mr1
   \<and> progressing_Reconcile pr_other_class (mr_store_of mr1) ''ns1'' ''mr1'' =
       (Inr \<lparr>res_requeue = False, res_requeueAfter = 0\<rparr>, mr_store_of mr1)
   \<and> applied_pending mr1_deleting
   \<and> progressing_Reconcile pr0 (mr_store_of mr1_deleting) ''ns1'' ''mr1'' =
       (Inr \<lparr>res_requeue = False, res_requeueAfter = 0\<rparr>, mr_store_of mr1_deleting)"
  by (simp add: mr_defs)

lemmas mr_run_defs = mr_defs progressing_reconcile_def GetOrInitCondition_def ResourcesProgressing_def
  client_Get_workload_def deployment1_def checkProgressing_def SkipHealthCheck_def UpdatedCondition_def
  client_Status_Update_def Let_def

text \<open>For contrast: once Applied is True, the same ManagedResource has its Progressing
  condition evaluated and written.\<close>

lemma progressing_applied_updates:
  "fst (progressing_Reconcile pr0 (mr_store_of mr1_applied) ''ns1'' ''mr1'') = Inr (RequeueAfter 60000000000)
   \<and> map (\<lambda>m. map (\<lambda>c. (cond_type c, cond_status c, cond_reason c)) (mr_conditions m))
        (ms_resources (snd (progressing_Reconcile pr0 (mr_store_of mr1_applied) ''ns1'' ''mr1''))) =
      [[(''ResourcesApplied'', ConditionTrue, ''ApplySucceeded''),
        (''ResourcesProgressing'', ConditionTrue, ''DeploymentProgressing'')]]"
  by (simp add: mr_run_defs)


section \<open>What the tasks leave alone\<close>

lemma GetAndCreateOrMergePatch_frame:
  "GetAndCreateOrMergePatch c m f = (r, c') \<Longrightarrow>
     cl_services c' = cl_services c \<and> cl_namespaces c' = cl_namespaces c \<and> cl_faults c' = cl_faults c"
  by (auto simp: GetAndCreateOrMergePatch_def Let_def split: option.splits sum.splits)

lemma run_task_frame:
  assumes "run_task lib svc t c = (r, c')"
  shows "cl_services c' = cl_services c \<and> cl_namespaces c' = cl_namespaces c \<and> cl_faults c' = cl_faults c"
proof (cases t)
  case (ReconcileIngressPolicy p m n ml)
  with assms show ?thesis
    using GetAndCreateOrMergePatch_frame by (simp add: reconcileIngressPolicy_def)
next
  case (ReconcileEgressPolicy p m n ml)
  with assms show ?thesis
    using GetAndCreateOrMergePatch_frame by (simp add: reconcileEgressPolicy_def)
next
  case (ReconcileIngressFromWorldPolicy m)
  with assms show ?thesis
    using GetAndCreateOrMergePatch_frame
    by (auto simp: reconcileIngressFromWorldPolicy_def Let_def split: sum.splits)
next
  case (DeleteObject m)
  with assms show ?thesis
    by (auto simp: client_DeleteObject_def Let_def split: option.splits if_splits)
qed

lemma run_tasks_frame:
  "run_tasks lib svc ts c = (errs, c') \<Longrightarrow>
     cl_services c' = cl_services c \<and> cl_namespaces c' = cl_namespaces c \<and> cl_faults c' = cl_faults c"
proof (induction ts arbitrary: c errs c')
  case Nil
  then show ?case by simp
next
  case (Cons t ts)
  obtain r c1 where t: "run_task lib svc t c = (r, c1)" by (cases "run_task lib svc t c")
  obtain es c2 where ts: "run_tasks lib svc ts c1 = (es, c2)" by (cases "run_tasks lib svc ts c1")
  from Cons.prems t ts have "c' = c2" by simp
  with run_task_frame [OF t] Cons.IH [OF ts] show ?case by simp
qed

lemma Parallel_frame:
  "Parallel sched lib svc ts c = (r, c') \<Longrightarrow>
     cl_services c' = cl_services c \<and> cl_namespaces c' = cl_namespaces c \<and> cl_faults c' = cl_faults c"
proof -
  assume a: "Parallel sched lib svc ts c = (r, c')"
  obtain es c2 where ts: "run_tasks lib svc (sched ts) c = (es, c2)"
    by (cases "run_tasks lib svc (sched ts) c")
  with a have "c' = c2" by (simp add: Parallel_def)
  with run_tasks_frame [OF ts] show ?thesis by simp
qed

lemma from_world_task_fails:
  assumes "map_of (meta_annotations (svc_meta svc)) NetworkingFromWorldToPorts = Some v"
    and "unmarshalPorts lib v = Inl e"
  shows "run_task lib svc (ReconcileIngressFromWorldPolicy m) c =
           (Some (Wrapped (''failed unmarshaling '' @ v) e), c)"
  using assms by (simp add: reconcileIngressFromWorldPolicy_def lookup_or_empty_def)


section \<open>The from-world policy and its annotation\<close>

text \<open>
  C10. Whenever the from-world annotation key is present, whatever its value, and the
  derivation returns a key set at all, that set holds the key
  \<open>namespace/ingress-to-name-from-world\<close> and the task list holds the from-world task; so
  no delete task is scheduled for a policy with that key. The value is parsed only when
  the task runs: if it does not parse, the task returns the parse error and leaves the
  store as it is.
\<close>

theorem from_world_key_desired:
  assumes a: "map_of (meta_annotations (svc_meta svc)) NetworkingFromWorldToPorts = Some v"
    and r: "reconcileDesiredPolicies lib svc nss = Inr (tasks, keys)"
  shows "key (fromWorldObjectMeta svc) = meta_namespace (svc_meta svc) @ ''/ingress-to-'' @
           meta_name (svc_meta svc) @ ''-from-world''
       \<and> key (fromWorldObjectMeta svc) \<in> set keys
       \<and> ReconcileIngressFromWorldPolicy (fromWorldObjectMeta svc) \<in> set tasks
       \<and> (\<forall>t \<in> set (deleteStalePolicies items keys). key (task_target t) \<noteq> key (fromWorldObjectMeta svc))
       \<and> (\<forall>e. unmarshalPorts lib v = Inl e \<longrightarrow>
            run_task lib svc (ReconcileIngressFromWorldPolicy (fromWorldObjectMeta svc)) c =
              (Some (Wrapped (''failed unmarshaling '' @ v) e), c))"
proof -
  have k: "key (fromWorldObjectMeta svc) = meta_namespace (svc_meta svc) @ ''/ingress-to-'' @
           meta_name (svc_meta svc) @ ''-from-world''"
    by (simp add: key_def fromWorldObjectMeta_def ObjectMeta_def)
  from reconcileDesiredPolicies_Inr [OF r] a obtain acc2 where
    "(tasks, keys) = (fst acc2 @ [ReconcileIngressFromWorldPolicy (fromWorldObjectMeta svc)],
                      snd acc2 @ [key (fromWorldObjectMeta svc)])"
    by auto
  then have in_keys: "key (fromWorldObjectMeta svc) \<in> set keys"
    and in_tasks: "ReconcileIngressFromWorldPolicy (fromWorldObjectMeta svc) \<in> set tasks"
    by auto
  have no_delete: "\<forall>t \<in> set (deleteStalePolicies items keys). key (task_target t) \<noteq> key (fromWorldObjectMeta svc)"
    using in_keys by (auto simp: deleteStalePolicies_filter)
  have fails: "\<forall>e. unmarshalPorts lib v = Inl e \<longrightarrow>
            run_task lib svc (ReconcileIngressFromWorldPolicy (fromWorldObjectMeta svc)) c =
              (Some (Wrapped (''failed unmarshaling '' @ v) e), c)"
    using from_world_task_fails [OF a] by blast
  from k in_keys in_tasks no_delete fails show ?thesis by blast
qed

theorem from_world_key_desired_witness:
  "map_of (meta_annotations (svc_meta svcW)) NetworkingFromWorldToPorts = Some ''garbage''
   \<and> unmarshalPorts lib0 ''garbage'' = Inl (UnmarshalError ''garbage'')
   \<and> reconcileDesiredPolicies lib0 svcW [''ns1''] =
       Inr ([taskA_ingress, taskA_egress, ReconcileIngressFromWorldPolicy (fromWorldObjectMeta svcW)],
            [''ns1/ingress-to-svc1-tcp-80'', ''ns1/egress-to-svc1-tcp-80'', ''ns1/ingress-to-svc1-from-world''])
   \<and> key (fromWorldObjectMeta svcW) = ''ns1/ingress-to-svc1-from-world''
   \<and> deleteStalePolicies [np_meta policy_from_world, np_meta policy_stale]
        [''ns1/ingress-to-svc1-tcp-80'', ''ns1/egress-to-svc1-tcp-80'', ''ns1/ingress-to-svc1-from-world''] =
       [DeleteObject (np_meta policy_stale)]
   \<and> run_task lib0 svcW (ReconcileIngressFromWorldPolicy (fromWorldObjectMeta svcW)) clusterW =
       (Some (Wrapped ''failed unmarshaling garbage'' (UnmarshalError ''garbage'')), clusterW)"
proof -
  have a: "map_of (meta_annotations (svc_meta svcW)) NetworkingFromWorldToPorts = Some ''garbage''"
    by (simp add: svcW_def svc1_final_def svc1_def)
  have u: "unmarshalPorts lib0 ''garbage'' = Inl (UnmarshalError ''garbage'')"
    by (simp add: lib0_def)
  have r: "reconcileDesiredPolicies lib0 svcW [''ns1''] =
       Inr ([taskA_ingress, taskA_egress, ReconcileIngressFromWorldPolicy (fromWorldObjectMeta svcW)],
            [''ns1/ingress-to-svc1-tcp-80'', ''ns1/egress-to-svc1-tcp-80'', ''ns1/ingress-to-svc1-from-world''])"
    by (simp add: eval_defs svcW_def svc1_final_def taskA_ingress_def taskA_egress_def
        LabelNetworkPolicyAllowed_def fromWorldObjectMeta_def)
  have d: "deleteStalePolicies [np_meta policy_from_world, np_meta policy_stale]
        [''ns1/ingress-to-svc1-tcp-80'', ''ns1/egress-to-svc1-tcp-80'', ''ns1/ingress-to-svc1-from-world''] =
       [DeleteObject (np_meta policy_stale)]"
    by (simp add: deleteStalePolicies_filter key_def policy_from_world_def policy_stale_def
        setBackReferences_def SetMetaDataLabel_def ObjectMeta_def)
  from from_world_key_desired [OF a r, of _ clusterW] u
  have "key (fromWorldObjectMeta svcW) = ''ns1/ingress-to-svc1-from-world''"
    and "run_task lib0 svcW (ReconcileIngressFromWorldPolicy (fromWorldObjectMeta svcW)) clusterW =
       (Some (Wrapped ''failed unmarshaling garbage'' (UnmarshalError ''garbage'')), clusterW)"
    by (simp_all add: svcW_def svc1_final_def svc1_def ObjectMeta_def)
  with a u r d show ?thesis by simp
qed


section \<open>Malformed annotations\<close>















section \<open>The clean-up branch\<close>

lemma client_Get_service_Inr:
  assumes "client_Get_service c ns n = Inr svc"
  shows "cl_faults c (GetService ns n) = None"
    and "find (\<lambda>s. same_object ns n (svc_meta s)) (cl_services c) = Some svc"
    and "meta_namespace (svc_meta svc) = ns" and "meta_name (svc_meta svc) = n"
proof -
  from assms show f: "cl_faults c (GetService ns n) = None"
    by (cases "cl_faults c (GetService ns n)") (simp_all add: client_Get_service_def)
  with assms show s: "find (\<lambda>s. same_object ns n (svc_meta s)) (cl_services c) = Some svc"
    by (cases "find (\<lambda>s. same_object ns n (svc_meta s)) (cl_services c)")
       (simp_all add: client_Get_service_def)
  from s have "same_object ns n (svc_meta svc)" by (auto simp: find_Some_iff)
  then show "meta_namespace (svc_meta svc) = ns" and "meta_name (svc_meta svc) = n"
    by (simp_all add: same_object_def)
qed

lemma client_List_policies_Inr:
  assumes "client_List_policies c n ns = Inr L"
  shows "L = filter (carries_labels n ns) (map np_meta (cl_policies c))"
  using assms by (cases "cl_faults c ListNetworkPolicies") (simp_all add: client_List_policies_def)

lemma find_map_preserving:
  "(\<And>x. P (f x) = P x) \<Longrightarrow> find P (map f xs) = map_option f (find P xs)"
  by (induction xs) simp_all

lemma run_deletes:
  assumes "\<forall>t \<in> set ts. is_delete t"
    and "\<forall>dns dn. cl_faults c (DeleteNetworkPolicy dns dn) = None"
  shows "run_tasks lib svc ts c =
           ([], c\<lparr>cl_policies :=
                    filter (\<lambda>p. \<forall>t \<in> set ts. \<not> same_object (meta_namespace (task_target t))
                                                    (meta_name (task_target t)) (np_meta p))
                           (cl_policies c)\<rparr>)"
  using assms
proof (induction ts arbitrary: c)
  case Nil
  then show ?case by simp
next
  case (Cons t ts)
  from Cons.prems(1) obtain m where t: "t = DeleteObject m" by (cases t) auto
  let ?c1 = "c\<lparr>cl_policies := filter (\<lambda>p. \<not> same_object (meta_namespace m) (meta_name m) (np_meta p))
                                     (cl_policies c)\<rparr>"
  from Cons.prems(2) have r: "run_task lib svc t c = (None, ?c1)"
    by (simp add: t client_DeleteObject_def)
  from Cons.prems have "\<forall>t \<in> set ts. is_delete t"
    and "\<forall>dns dn. cl_faults ?c1 (DeleteNetworkPolicy dns dn) = None" by simp_all
  from Cons.IH [OF this] have
    "run_tasks lib svc ts ?c1 =
       ([], ?c1\<lparr>cl_policies :=
                  filter (\<lambda>p. \<forall>t \<in> set ts. \<not> same_object (meta_namespace (task_target t))
                                                  (meta_name (task_target t)) (np_meta p))
                         (cl_policies ?c1)\<rparr>)" .
  moreover have "filter (\<lambda>p. \<forall>t \<in> set ts. \<not> same_object (meta_namespace (task_target t))
                                                  (meta_name (task_target t)) (np_meta p))
                   (cl_policies ?c1) =
                 filter (\<lambda>p. \<forall>t \<in> set (t # ts). \<not> same_object (meta_namespace (task_target t))
                                                  (meta_name (task_target t)) (np_meta p))
                   (cl_policies c)"
    by (auto simp: t intro: filter_cong)
  ultimately show ?case using r by simp
qed

lemma permutes_set: "permutes sched \<Longrightarrow> set (sched ts) = set ts"
  using mset_eq_setD by (auto simp: permutes_def)

text \<open>
  C6. Let the Service be fetched, its policies listed and the gate evaluated, and let the
  Service be deleting, or without pod selector, or in an unhandled namespace. Without the
  finalizer, the reconciliation succeeds and the store is unchanged. With the finalizer
  (and no fault on the delete and patch calls), it succeeds under every schedule, every
  listed policy, that is every policy carrying the Service's two back-reference labels, is
  gone from the store, every other policy is kept, and the stored Service no longer has the
  finalizer. The finalizer is removed only after the deletions: when the delete flow
  reports an error, that error is returned and the Services of the store are untouched.
\<close>

theorem cleanup_branch:
  assumes get: "client_Get_service c ns n = Inr svc"
    and list: "client_List_policies c (meta_name (svc_meta svc)) (meta_namespace (svc_meta svc)) = Inr L"
    and handled: "namespaceIsHandled r c (meta_namespace (svc_meta svc)) = Inr h"
    and state: "meta_deletionTimestamp (svc_meta svc) \<noteq> None \<or> svc_selector svc = None \<or> \<not> h"
    and perm: "permutes sched"
  shows "(\<not> ContainsFinalizer (svc_meta svc) finalizerName \<longrightarrow>
            Reconcile r lib sched c ns n = (Inr Result_empty, c))
       \<and> (ContainsFinalizer (svc_meta svc) finalizerName \<longrightarrow>
          (\<forall>dns dn. cl_faults c (DeleteNetworkPolicy dns dn) = None) \<longrightarrow>
          cl_faults c (PatchService ns n) = None \<longrightarrow>
            fst (Reconcile r lib sched c ns n) = Inr Result_empty
          \<and> cl_policies (snd (Reconcile r lib sched c ns n)) =
              filter (\<lambda>p. \<forall>m \<in> set L. \<not> same_object (meta_namespace m) (meta_name m) (np_meta p))
                     (cl_policies c)
          \<and> (\<forall>p \<in> set (cl_policies (snd (Reconcile r lib sched c ns n))).
                \<not> carries_labels n ns (np_meta p))
          \<and> (\<exists>svc'. client_Get_service (snd (Reconcile r lib sched c ns n)) ns n = Inr svc'
                    \<and> \<not> ContainsFinalizer (svc_meta svc') finalizerName))
       \<and> (ContainsFinalizer (svc_meta svc) finalizerName \<longrightarrow>
          (\<forall>e c1. Parallel sched lib svc (deleteStalePolicies L []) c = (Some e, c1) \<longrightarrow>
             Reconcile r lib sched c ns n = (Inl e, c1) \<and> cl_services c1 = cl_services c))"
proof -
  note g = client_Get_service_Inr [OF get]
  from state have cs: "cleanup_state svc h" by (simp add: cleanup_state_def)
  have L: "L = filter (carries_labels n ns) (map np_meta (cl_policies c))"
    using client_List_policies_Inr [OF list] g by simp
  have ds: "deleteStalePolicies L [] = map DeleteObject L"
    by (simp add: deleteStalePolicies_filter)
  have first: "Reconcile r lib sched c ns n = (Inr Result_empty, c)"
    if "\<not> ContainsFinalizer (svc_meta svc) finalizerName"
    using that get list handled cs by (simp add: Reconcile_def)
  have branch: "Reconcile r lib sched c ns n =
      (case Parallel sched lib svc (deleteStalePolicies L []) c of
         (Some err, c1) \<Rightarrow> (Inl err, c1)
       | (None, c1) \<Rightarrow>
           (case RemoveFinalizers c1 svc finalizerName of
              Inl err \<Rightarrow> (Inl (Wrapped ''failed to remove finalizer'' err), c1)
            | Inr (svc', c2) \<Rightarrow> (Inr Result_empty, c2)))"
    if "ContainsFinalizer (svc_meta svc) finalizerName"
    using that get list handled cs by (simp add: Reconcile_def)
  have third: "Reconcile r lib sched c ns n = (Inl e, c1) \<and> cl_services c1 = cl_services c"
    if f: "ContainsFinalizer (svc_meta svc) finalizerName"
      and p: "Parallel sched lib svc (deleteStalePolicies L []) c = (Some e, c1)" for e c1
    using branch [OF f] p Parallel_frame [OF p] by simp
  have second: "fst (Reconcile r lib sched c ns n) = Inr Result_empty
          \<and> cl_policies (snd (Reconcile r lib sched c ns n)) =
              filter (\<lambda>p. \<forall>m \<in> set L. \<not> same_object (meta_namespace m) (meta_name m) (np_meta p))
                     (cl_policies c)
          \<and> (\<forall>p \<in> set (cl_policies (snd (Reconcile r lib sched c ns n))).
                \<not> carries_labels n ns (np_meta p))
          \<and> (\<exists>svc'. client_Get_service (snd (Reconcile r lib sched c ns n)) ns n = Inr svc'
                    \<and> \<not> ContainsFinalizer (svc_meta svc') finalizerName)"
    if f: "ContainsFinalizer (svc_meta svc) finalizerName"
      and nd: "\<forall>dns dn. cl_faults c (DeleteNetworkPolicy dns dn) = None"
      and np: "cl_faults c (PatchService ns n) = None"
  proof -
    let ?keep = "\<lambda>p. \<forall>m \<in> set L. \<not> same_object (meta_namespace m) (meta_name m) (np_meta p)"
    let ?c1 = "c\<lparr>cl_policies := filter ?keep (cl_policies c)\<rparr>"
    let ?fs = "filter (\<lambda>g. g \<noteq> finalizerName) (meta_finalizers (svc_meta svc))"
    let ?f = "\<lambda>s. if same_object ns n (svc_meta s)
                   then s\<lparr>svc_meta := (svc_meta s)\<lparr>meta_finalizers := ?fs\<rparr>\<rparr> else s"
    let ?c2 = "?c1\<lparr>cl_services := map ?f (cl_services c)\<rparr>"
    have sets: "set (sched (map DeleteObject L)) = DeleteObject ` set L"
      using permutes_set [OF perm, of "map DeleteObject L"] by simp
    then have all_del: "\<forall>t \<in> set (sched (map DeleteObject L)). is_delete t" by auto
    have keep_eq: "(\<lambda>p. \<forall>t \<in> set (sched (map DeleteObject L)).
                     \<not> same_object (meta_namespace (task_target t)) (meta_name (task_target t)) (np_meta p))
                   = ?keep"
      by (rule ext) (simp add: sets)
    have run: "run_tasks lib svc (sched (map DeleteObject L)) c = ([], ?c1)"
      using run_deletes [OF all_del nd, of lib svc] by (simp only: keep_eq)
    then have par: "Parallel sched lib svc (deleteStalePolicies L []) c = (None, ?c1)"
      by (simp add: Parallel_def ds del: run_tasks.simps)
    have rem: "RemoveFinalizers ?c1 svc finalizerName =
                 Inr (svc\<lparr>svc_meta := (svc_meta svc)\<lparr>meta_finalizers := ?fs\<rparr>\<rparr>, ?c2)"
      using g np by (simp add: RemoveFinalizers_def patch_finalizers_def Let_def)
    have R: "Reconcile r lib sched c ns n = (Inr Result_empty, ?c2)"
      using branch [OF f] par rem by simp
    have carried: "\<not> carries_labels n ns (np_meta p)" if "p \<in> set (filter ?keep (cl_policies c))" for p
    proof
      assume cl: "carries_labels n ns (np_meta p)"
      from that have "p \<in> set (cl_policies c)" and k: "?keep p" by auto
      with cl have "np_meta p \<in> set L" by (simp add: L)
      with k have "\<not> same_object (meta_namespace (np_meta p)) (meta_name (np_meta p)) (np_meta p)"
        by blast
      then show False by (simp add: same_object_def)
    qed
    have pres: "same_object ns n (svc_meta (?f s)) = same_object ns n (svc_meta s)" for s
      by (simp add: same_object_def)
    have "find (\<lambda>s. same_object ns n (svc_meta s)) (map ?f (cl_services c)) = Some (?f svc)"
      using find_map_preserving [of "\<lambda>s. same_object ns n (svc_meta s)" ?f "cl_services c", OF pres] g(2)
      by simp
    with g(1) have get2: "client_Get_service ?c2 ns n = Inr (?f svc)"
      by (simp add: client_Get_service_def)
    have "\<not> ContainsFinalizer (svc_meta (?f svc)) finalizerName"
      using g(3,4) by (simp add: ContainsFinalizer_def same_object_def)
    with get2 R carried show ?thesis by auto
  qed
  from first second third show ?thesis by blast
qed


lemmas cleanup_defs = eval_defs svc_deleting_def svc1_final_def cluster_deleting_def scenarioA_ingress_def
  scenarioA_egress_def policy_other_def empty_spec_def MatchLabels_def NetworkingServiceName_def
  NetworkingServiceNamespace_def svc_unselected_def cluster_unselected_def

text \<open>The theorem at the deleting Service of scenario A under the reversed schedule, and at
  the Service without selector and without finalizer.\<close>

theorem cleanup_branch_witness:
  "client_Get_service cluster_deleting ''ns1'' ''svc1'' = Inr svc_deleting
   \<and> client_List_policies cluster_deleting ''svc1'' ''ns1'' =
       Inr [np_meta scenarioA_ingress, np_meta scenarioA_egress]
   \<and> meta_deletionTimestamp (svc_meta svc_deleting) = Some 3
   \<and> ContainsFinalizer (svc_meta svc_deleting) finalizerName
   \<and> permutes rev
   \<and> fst (Reconcile global_reconciler lib0 rev cluster_deleting ''ns1'' ''svc1'') = Inr Result_empty
   \<and> cl_policies (snd (Reconcile global_reconciler lib0 rev cluster_deleting ''ns1'' ''svc1'')) = [policy_other]
   \<and> (\<exists>svc'. client_Get_service (snd (Reconcile global_reconciler lib0 rev cluster_deleting ''ns1'' ''svc1''))
                 ''ns1'' ''svc1'' = Inr svc'
             \<and> \<not> ContainsFinalizer (svc_meta svc') finalizerName)
   \<and> client_Get_service cluster_unselected ''ns1'' ''svc1'' = Inr svc_unselected
   \<and> svc_selector svc_unselected = None
   \<and> Reconcile global_reconciler lib0 rev cluster_unselected ''ns1'' ''svc1'' =
       (Inr Result_empty, cluster_unselected)"
proof -
  have g: "client_Get_service cluster_deleting ''ns1'' ''svc1'' = Inr svc_deleting"
    by (simp add: cleanup_defs)
  have n: "meta_name (svc_meta svc_deleting) = ''svc1''" "meta_namespace (svc_meta svc_deleting) = ''ns1''"
    "meta_deletionTimestamp (svc_meta svc_deleting) = Some 3"
    "ContainsFinalizer (svc_meta svc_deleting) finalizerName"
    by (simp_all add: cleanup_defs)
  have l: "client_List_policies cluster_deleting ''svc1'' ''ns1'' =
       Inr [np_meta scenarioA_ingress, np_meta scenarioA_egress]"
    by (simp add: cleanup_defs)
  have h: "namespaceIsHandled global_reconciler cluster_deleting ''ns1'' = Inr True"
    by (simp add: cleanup_defs)
  have p: "permutes rev" by (simp add: permutes_def)
  have nf: "\<forall>dns dn. cl_faults cluster_deleting (DeleteNetworkPolicy dns dn) = None"
    "cl_faults cluster_deleting (PatchService ''ns1'' ''svc1'') = None"
    by (simp_all add: cluster_deleting_def no_faults_def)
  have k: "filter (\<lambda>p. \<forall>m \<in> set [np_meta scenarioA_ingress, np_meta scenarioA_egress].
                      \<not> same_object (meta_namespace m) (meta_name m) (np_meta p))
             (cl_policies cluster_deleting) = [policy_other]"
    by (simp add: cleanup_defs)
  have st: "meta_deletionTimestamp (svc_meta svc_deleting) \<noteq> None \<or> svc_selector svc_deleting = None \<or> \<not> True"
    using n(3) by simp
  from cleanup_branch [OF g _ _ st p, of "[np_meta scenarioA_ingress, np_meta scenarioA_egress]"
      global_reconciler lib0] l h n nf
  have a: "fst (Reconcile global_reconciler lib0 rev cluster_deleting ''ns1'' ''svc1'') = Inr Result_empty"
    and b: "cl_policies (snd (Reconcile global_reconciler lib0 rev cluster_deleting ''ns1'' ''svc1'')) =
              filter (\<lambda>p. \<forall>m \<in> set [np_meta scenarioA_ingress, np_meta scenarioA_egress].
                      \<not> same_object (meta_namespace m) (meta_name m) (np_meta p))
                (cl_policies cluster_deleting)"
    and c: "\<exists>svc'. client_Get_service (snd (Reconcile global_reconciler lib0 rev cluster_deleting ''ns1'' ''svc1''))
                 ''ns1'' ''svc1'' = Inr svc'
             \<and> \<not> ContainsFinalizer (svc_meta svc') finalizerName"
    by simp_all
  have g2: "client_Get_service cluster_unselected ''ns1'' ''svc1'' = Inr svc_unselected"
    by (simp add: cleanup_defs)
  have n2: "meta_name (svc_meta svc_unselected) = ''svc1''" "meta_namespace (svc_meta svc_unselected) = ''ns1''"
    "svc_selector svc_unselected = None"
    "\<not> ContainsFinalizer (svc_meta svc_unselected) finalizerName"
    by (simp_all add: cleanup_defs)
  have l2: "client_List_policies cluster_unselected ''svc1'' ''ns1'' = Inr []"
    by (simp add: cleanup_defs)
  have h2: "namespaceIsHandled global_reconciler cluster_unselected ''ns1'' = Inr True"
    by (simp add: cleanup_defs)
  have st2: "meta_deletionTimestamp (svc_meta svc_unselected) \<noteq> None \<or> svc_selector svc_unselected = None \<or> \<not> True"
    using n2(3) by simp
  from cleanup_branch [OF g2 _ _ st2 p, of "[]" global_reconciler lib0] l2 h2 n2
  have d: "Reconcile global_reconciler lib0 rev cluster_unselected ''ns1'' ''svc1'' =
       (Inr Result_empty, cluster_unselected)" by simp
  from b have b': "cl_policies (snd (Reconcile global_reconciler lib0 rev cluster_deleting ''ns1'' ''svc1'')) = [policy_other]"
    by (simp only: k)
  from g l n p a b' c g2 n2 d show ?thesis by simp
qed


section \<open>Upserts and deletes in one parallel flow\<close>











end
